theory Spec2Isabelle
  imports Complex_Main
begin

section \<open>Python values and errors\<close>

text \<open>
  The estimation engine of \<^verbatim>\<open>streamlit_app.py\<close> computes with Python numbers.
  Both \<^verbatim>\<open>int\<close> and \<^verbatim>\<open>float\<close> arguments are embedded as \<^typ>\<open>real\<close>: the arithmetic
  is the exact one, rounding of IEEE doubles is not part of the model. The only
  numeric operation of the engine that can raise is true division, which raises
  \<^verbatim>\<open>ZeroDivisionError\<close> on a zero divisor; subscripting a dictionary with a missing
  key raises \<^verbatim>\<open>KeyError\<close>; waiting for a future beyond its timeout raises
  \<^verbatim>\<open>TimeoutError\<close>.
\<close>

datatype py_error = KeyError | ZeroDivisionError | TimeoutError

definition py_div :: "real \<Rightarrow> real \<Rightarrow> py_error + real" where
  "py_div a b = (if b = 0 then Inl ZeroDivisionError else Inr (a / b))"

text \<open>Sequencing of a computation that may raise: the first exception wins.\<close>

definition and_then :: "py_error + 'a \<Rightarrow> ('a \<Rightarrow> py_error + 'b) \<Rightarrow> py_error + 'b" where
  "and_then r k = (case r of Inl e \<Rightarrow> Inl e | Inr v \<Rightarrow> k v)"

text \<open>\<^verbatim>\<open>d[k]\<close> on a dictionary.\<close>

definition subscript :: "('k \<rightharpoonup> 'v) \<Rightarrow> 'k \<Rightarrow> py_error + 'v" where
  "subscript d k = (case d k of None \<Rightarrow> Inl KeyError | Some v \<Rightarrow> Inr v)"

section \<open>The pricing resolver: \<^verbatim>\<open>AWSPricingManager\<close>\<close>

text \<open>
  The state of one manager object. \<open>pricing_client\<close> is \<open>True\<close> when the attribute
  holds a client object and \<open>False\<close> when it is \<^verbatim>\<open>None\<close>. \<open>provider_calls\<close> is a
  ghost counter of the \<^verbatim>\<open>get_products\<close> requests sent to the pricing provider; the
  source has no such field, the model counts with it.
\<close>

record pricing_manager =
  region :: string
  pricing_client :: bool
  cache :: "string \<rightharpoonup> real"
  last_cache_update :: "string \<rightharpoonup> real"
  cache_ttl :: real
  provider_calls :: nat

text \<open>\<^verbatim>\<open>_is_cache_valid\<close>; \<open>now\<close> is the reading of \<^verbatim>\<open>time.time()\<close>.\<close>

definition is_cache_valid :: "pricing_manager \<Rightarrow> real \<Rightarrow> string \<Rightarrow> bool" where
  "is_cache_valid m now key =
     (if cache m key = None \<or> last_cache_update m key = None then False
      else (case last_cache_update m key of
              Some t \<Rightarrow> (now - t) < cache_ttl m
            | None \<Rightarrow> False))"

text \<open>\<^verbatim>\<open>_update_cache\<close>; \<open>now\<close> is the reading of \<^verbatim>\<open>time.time()\<close>.\<close>

definition update_cache :: "pricing_manager \<Rightarrow> real \<Rightarrow> string \<Rightarrow> real \<Rightarrow> pricing_manager" where
  "update_cache m now key v =
     m\<lparr>cache := (cache m)(key \<mapsto> v),
       last_cache_update := (last_cache_update m)(key \<mapsto> now)\<rparr>"

text \<open>
  \<^verbatim>\<open>__init__\<close>: an empty cache and a time-to-live of 3600 seconds. \<open>client_ok\<close>
  tells whether \<^verbatim>\<open>_init_clients\<close> ended with a client or with \<^verbatim>\<open>None\<close>.
\<close>

definition init_manager :: "string \<Rightarrow> bool \<Rightarrow> pricing_manager" where
  "init_manager rgn client_ok =
     \<lparr>region = rgn, pricing_client = client_ok, cache = Map.empty,
      last_cache_update = Map.empty, cache_ttl = 3600, provider_calls = 0\<rparr>"

text \<open>\<^verbatim>\<open>region or self.region\<close>: \<^verbatim>\<open>None\<close> and the empty string are falsy.\<close>

definition region_or :: "pricing_manager \<Rightarrow> string option \<Rightarrow> string" where
  "region_or m r = (case r of None \<Rightarrow> region m | Some x \<Rightarrow> (if x = [] then region m else x))"

text \<open>The fallback tables.\<close>

definition get_fallback_ec2_pricing :: "string \<Rightarrow> real" where
  "get_fallback_ec2_pricing instance_type =
     (case map_of
        [(''m5.large'', 0.096), (''m5.xlarge'', 0.192), (''m5.2xlarge'', 0.384),
         (''m5.4xlarge'', 0.768), (''m5.8xlarge'', 1.536),
         (''c5.2xlarge'', 0.34), (''c5.4xlarge'', 0.68), (''c5.9xlarge'', 1.53),
         (''r5.2xlarge'', 0.504), (''r5.4xlarge'', 1.008)] instance_type of
        Some p \<Rightarrow> p | None \<Rightarrow> 0.10)"

definition get_fallback_dms_pricing :: "string \<Rightarrow> real" where
  "get_fallback_dms_pricing instance_type =
     (case map_of
        [(''dms.t3.micro'', 0.020), (''dms.t3.small'', 0.040), (''dms.t3.medium'', 0.080),
         (''dms.t3.large'', 0.160), (''dms.c5.large'', 0.192), (''dms.c5.xlarge'', 0.384),
         (''dms.c5.2xlarge'', 0.768), (''dms.c5.4xlarge'', 1.536),
         (''dms.r5.large'', 0.252), (''dms.r5.xlarge'', 0.504),
         (''dms.r5.2xlarge'', 1.008), (''dms.r5.4xlarge'', 2.016)] instance_type of
        Some p \<Rightarrow> p | None \<Rightarrow> 0.20)"

definition get_fallback_s3_pricing :: "string \<Rightarrow> real" where
  "get_fallback_s3_pricing storage_class =
     (case map_of
        [(''Standard'', 0.023), (''Standard-IA'', 0.0125), (''One Zone-IA'', 0.01),
         (''Glacier Instant Retrieval'', 0.004), (''Glacier Flexible Retrieval'', 0.0036),
         (''Glacier Deep Archive'', 0.00099)] storage_class of
        Some p \<Rightarrow> p | None \<Rightarrow> 0.023)"

definition get_fallback_dx_pricing :: "real \<Rightarrow> real" where
  "get_fallback_dx_pricing bandwidth_mbps =
     (if bandwidth_mbps \<ge> 10000 then 1.55
      else if bandwidth_mbps \<ge> 1000 then 0.30
      else 0.03)"

text \<open>
  What the \<^verbatim>\<open>try\<close> block around one provider request comes to:
  \<^item> \<open>Provider_Raises\<close>: \<^verbatim>\<open>get_products\<close>, the JSON decoding, a subscript or
    \<^verbatim>\<open>float\<close> raised an \<^verbatim>\<open>Exception\<close>;
  \<^item> \<open>No_Price\<close>: the price list is empty, or no price dimension has a
    \<^verbatim>\<open>USD\<close> entry;
  \<^item> \<open>USD_Price p\<close>: \<open>p\<close> is the first \<^verbatim>\<open>USD\<close> unit price met by the two loops.
  The request itself (service code and filters) goes to the provider and is not
  part of the model.
\<close>

datatype provider_response = Provider_Raises | No_Price | USD_Price real

text \<open>
  The body that \<^verbatim>\<open>get_ec2_pricing\<close>, \<^verbatim>\<open>get_dms_pricing\<close>, \<^verbatim>\<open>get_s3_pricing\<close>,
  \<^verbatim>\<open>get_data_transfer_pricing\<close> and \<^verbatim>\<open>get_direct_connect_pricing\<close> repeat: they
  differ in the cache key, in the fallback value and in what is stored for the
  price found (\<open>convert\<close>). \<open>t_valid\<close> and \<open>t_update\<close> are the clock readings in
  \<^verbatim>\<open>_is_cache_valid\<close> and in \<^verbatim>\<open>_update_cache\<close>. The subscript
  \<^verbatim>\<open>self.cache[cache_key]\<close> stands outside the \<^verbatim>\<open>try\<close> block.
\<close>

definition cached_lookup ::
    "pricing_manager \<Rightarrow> string \<Rightarrow> real \<Rightarrow> (real \<Rightarrow> real) \<Rightarrow> real \<Rightarrow> real \<Rightarrow> provider_response
      \<Rightarrow> (py_error + real) \<times> pricing_manager" where
  "cached_lookup m cache_key fallback convert t_valid t_update response =
     (if \<not> pricing_client m then (Inr fallback, m)
      else if is_cache_valid m t_valid cache_key then (subscript (cache m) cache_key, m)
      else
        (let m1 = m\<lparr>provider_calls := Suc (provider_calls m)\<rparr>
         in case response of
              USD_Price p \<Rightarrow>
                (let price = convert p
                 in (Inr price, update_cache m1 t_update cache_key price))
            | No_Price \<Rightarrow> (Inr fallback, m1)
            | Provider_Raises \<Rightarrow> (Inr fallback, m1)))"

definition get_ec2_pricing ::
    "pricing_manager \<Rightarrow> real \<Rightarrow> real \<Rightarrow> provider_response \<Rightarrow> string \<Rightarrow> string option
      \<Rightarrow> (py_error + real) \<times> pricing_manager" where
  "get_ec2_pricing m t_valid t_update response instance_type r =
     cached_lookup m (''ec2_'' @ instance_type @ ''_'' @ region_or m r)
       (get_fallback_ec2_pricing instance_type) (\<lambda>p. p) t_valid t_update response"

definition get_dms_pricing ::
    "pricing_manager \<Rightarrow> real \<Rightarrow> real \<Rightarrow> provider_response \<Rightarrow> string \<Rightarrow> string option
      \<Rightarrow> (py_error + real) \<times> pricing_manager" where
  "get_dms_pricing m t_valid t_update response instance_type r =
     cached_lookup m (''dms_'' @ instance_type @ ''_'' @ region_or m r)
       (get_fallback_dms_pricing instance_type) (\<lambda>p. p) t_valid t_update response"

definition get_s3_pricing ::
    "pricing_manager \<Rightarrow> real \<Rightarrow> real \<Rightarrow> provider_response \<Rightarrow> string \<Rightarrow> string option
      \<Rightarrow> (py_error + real) \<times> pricing_manager" where
  "get_s3_pricing m t_valid t_update response storage_class r =
     cached_lookup m (''s3_'' @ storage_class @ ''_'' @ region_or m r)
       (get_fallback_s3_pricing storage_class) (\<lambda>p. p) t_valid t_update response"

definition get_data_transfer_pricing ::
    "pricing_manager \<Rightarrow> real \<Rightarrow> real \<Rightarrow> provider_response \<Rightarrow> string option
      \<Rightarrow> (py_error + real) \<times> pricing_manager" where
  "get_data_transfer_pricing m t_valid t_update response r =
     cached_lookup m (''transfer_'' @ region_or m r) 0.09 (\<lambda>p. p) t_valid t_update response"

text \<open>
  \<open>str_of\<close> is Python's formatting of the bandwidth inside the f-string of the
  cache key, taken as a parameter. The price found is a monthly one and the hourly
  one is stored.
\<close>

definition get_direct_connect_pricing ::
    "(real \<Rightarrow> string) \<Rightarrow> pricing_manager \<Rightarrow> real \<Rightarrow> real \<Rightarrow> provider_response \<Rightarrow> real \<Rightarrow> string option
      \<Rightarrow> (py_error + real) \<times> pricing_manager" where
  "get_direct_connect_pricing str_of m t_valid t_update response bandwidth_mbps r =
     cached_lookup m (''dx_'' @ str_of bandwidth_mbps @ ''_'' @ region_or m r)
       (get_fallback_dx_pricing bandwidth_mbps) (\<lambda>monthly_price. monthly_price / (24 * 30))
       t_valid t_update response"

subsection \<open>The batch: \<^verbatim>\<open>get_comprehensive_pricing\<close>\<close>

text \<open>
  What one of the four workers meets: its two clock readings, the provider's
  response to its request, and whether \<^verbatim>\<open>future.result(timeout=10)\<close> got the
  worker's value in time (\<open>in_time\<close>).
\<close>

record lookup_env =
  t_valid :: real
  t_update :: real
  response :: provider_response
  in_time :: bool

text \<open>
  \<^verbatim>\<open>future.result(timeout=10)\<close>: the worker's return value, the exception the
  worker raised, or \<^verbatim>\<open>TimeoutError\<close>.
\<close>

definition future_result :: "lookup_env \<Rightarrow> (py_error + real) \<times> pricing_manager \<Rightarrow> py_error + real" where
  "future_result env worker = (if in_time env then fst worker else Inl TimeoutError)"

text \<open>
  The loop \<^verbatim>\<open>for key, future in futures.items()\<close> with its \<^verbatim>\<open>try\<close> and the
  \<^verbatim>\<open>if/elif\<close> chain of the handler.
\<close>

fun collect_pricing ::
    "string \<Rightarrow> string \<Rightarrow> real \<Rightarrow> (string \<times> (py_error + real)) list \<Rightarrow> (string \<rightharpoonup> real)
      \<Rightarrow> (string \<rightharpoonup> real)" where
  "collect_pricing instance_type storage_class bandwidth_mbps [] pricing = pricing"
| "collect_pricing instance_type storage_class bandwidth_mbps ((key, future) # rest) pricing =
     collect_pricing instance_type storage_class bandwidth_mbps rest
       (case future of
          Inr v \<Rightarrow> pricing(key \<mapsto> v)
        | Inl e \<Rightarrow>
            (if key = ''ec2'' then pricing(key \<mapsto> get_fallback_ec2_pricing instance_type)
             else if key = ''s3'' then pricing(key \<mapsto> get_fallback_s3_pricing storage_class)
             else if key = ''transfer'' then pricing(key \<mapsto> 0.09)
             else if key = ''dx'' then pricing(key \<mapsto> get_fallback_dx_pricing bandwidth_mbps)
             else pricing))"

text \<open>
  The four workers run on the one manager, each on a cache key of its own prefix;
  each is given the manager as it is at the call. \<open>executor_ok\<close> is \<open>False\<close> when
  the executor or a \<^verbatim>\<open>submit\<close> raises, which the outer handler answers with the
  four fallback values. The function returns the dictionary of the four prices;
  what the workers write to the cache is not part of the returned value.
\<close>

definition get_comprehensive_pricing ::
    "(real \<Rightarrow> string) \<Rightarrow> pricing_manager \<Rightarrow> bool
      \<Rightarrow> lookup_env \<Rightarrow> lookup_env \<Rightarrow> lookup_env \<Rightarrow> lookup_env
      \<Rightarrow> string \<Rightarrow> string \<Rightarrow> string option \<Rightarrow> real \<Rightarrow> (string \<rightharpoonup> real)" where
  "get_comprehensive_pricing str_of m executor_ok env_ec2 env_s3 env_transfer env_dx
       instance_type storage_class r bandwidth_mbps =
     (if executor_ok then
        (let futures =
               [(''ec2'', future_result env_ec2
                   (get_ec2_pricing m (t_valid env_ec2) (t_update env_ec2) (response env_ec2)
                      instance_type r)),
                (''s3'', future_result env_s3
                   (get_s3_pricing m (t_valid env_s3) (t_update env_s3) (response env_s3)
                      storage_class r)),
                (''transfer'', future_result env_transfer
                   (get_data_transfer_pricing m (t_valid env_transfer) (t_update env_transfer)
                      (response env_transfer) r)),
                (''dx'', future_result env_dx
                   (get_direct_connect_pricing str_of m (t_valid env_dx) (t_update env_dx)
                      (response env_dx) bandwidth_mbps r))]
         in collect_pricing instance_type storage_class bandwidth_mbps futures Map.empty)
      else
        [''ec2'' \<mapsto> get_fallback_ec2_pricing instance_type,
         ''s3'' \<mapsto> get_fallback_s3_pricing storage_class,
         ''transfer'' \<mapsto> 0.09,
         ''dx'' \<mapsto> get_fallback_dx_pricing bandwidth_mbps])"

section \<open>Static catalogs of \<^verbatim>\<open>EnhancedMigrationCalculator\<close>\<close>

text \<open>\<^verbatim>\<open>self.geographic_latency\<close>: source location, then target region.\<close>

definition geographic_latency :: "string \<rightharpoonup> (string \<rightharpoonup> real)" where
  "geographic_latency = map_of
    [(''San Jose, CA'', map_of [(''us-west-1'', 15), (''us-west-2'', 25), (''us-east-1'', 70), (''us-east-2'', 65)]),
     (''San Antonio, TX'', map_of [(''us-west-1'', 45), (''us-west-2'', 50), (''us-east-1'', 35), (''us-east-2'', 30)]),
     (''New York, NY'', map_of [(''us-west-1'', 75), (''us-west-2'', 80), (''us-east-1'', 10), (''us-east-2'', 15)]),
     (''Chicago, IL'', map_of [(''us-west-1'', 60), (''us-west-2'', 65), (''us-east-1'', 25), (''us-east-2'', 20)]),
     (''Dallas, TX'', map_of [(''us-west-1'', 40), (''us-west-2'', 45), (''us-east-1'', 35), (''us-east-2'', 30)]),
     (''Los Angeles, CA'', map_of [(''us-west-1'', 20), (''us-west-2'', 15), (''us-east-1'', 75), (''us-east-2'', 70)]),
     (''Atlanta, GA'', map_of [(''us-west-1'', 65), (''us-west-2'', 70), (''us-east-1'', 15), (''us-east-2'', 20)]),
     (''London, UK'', map_of [(''us-west-1'', 150), (''us-west-2'', 155), (''us-east-1'', 80), (''us-east-2'', 85)]),
     (''Frankfurt, DE'', map_of [(''us-west-1'', 160), (''us-west-2'', 165), (''us-east-1'', 90), (''us-east-2'', 95)]),
     (''Tokyo, JP'', map_of [(''us-west-1'', 120), (''us-west-2'', 115), (''us-east-1'', 180), (''us-east-2'', 185)]),
     (''Sydney, AU'', map_of [(''us-west-1'', 170), (''us-west-2'', 165), (''us-east-1'', 220), (''us-east-2'', 225)])]"

text \<open>
  \<^verbatim>\<open>self.instance_performance\<close> and \<^verbatim>\<open>self.dms_performance\<close>: of each profile the
  one column the throughput models read (\<^verbatim>\<open>baseline_throughput\<close>, respectively
  \<^verbatim>\<open>throughput_mbps\<close>).
\<close>

definition instance_performance :: "string \<rightharpoonup> real" where
  "instance_performance = map_of
    [(''m5.large'', 150), (''m5.xlarge'', 250), (''m5.2xlarge'', 400), (''m5.4xlarge'', 600),
     (''m5.8xlarge'', 1000), (''c5.2xlarge'', 500), (''c5.4xlarge'', 800), (''c5.9xlarge'', 1500),
     (''r5.2xlarge'', 450), (''r5.4xlarge'', 700)]"

definition dms_performance :: "string \<rightharpoonup> real" where
  "dms_performance = map_of
    [(''dms.t3.micro'', 50), (''dms.t3.small'', 100), (''dms.t3.medium'', 200),
     (''dms.t3.large'', 400), (''dms.c5.large'', 600), (''dms.c5.xlarge'', 1200),
     (''dms.c5.2xlarge'', 2400), (''dms.c5.4xlarge'', 4800), (''dms.r5.large'', 800),
     (''dms.r5.xlarge'', 1600), (''dms.r5.2xlarge'', 3200), (''dms.r5.4xlarge'', 6400)]"

text \<open>\<^verbatim>\<open>self.snowball_specs\<close> (the \<^verbatim>\<open>use_case\<close> text is not carried).\<close>

record device_spec =
  capacity_tb :: real
  transfer_rate_gbps :: real
  weight_lbs :: real
  base_shipping_days :: real

definition snowball_specs :: "string \<rightharpoonup> device_spec" where
  "snowball_specs = map_of
    [(''snowcone'',
        \<lparr>capacity_tb = 0.008, transfer_rate_gbps = 0.025, weight_lbs = 4.5, base_shipping_days = 4\<rparr>),
     (''snowball_edge_storage'',
        \<lparr>capacity_tb = 80, transfer_rate_gbps = 1.0, weight_lbs = 49.7, base_shipping_days = 6\<rparr>),
     (''snowball_edge_compute'',
        \<lparr>capacity_tb = 42, transfer_rate_gbps = 1.0, weight_lbs = 49.7, base_shipping_days = 6\<rparr>)]"

text \<open>\<^verbatim>\<open>self.file_size_multipliers\<close>.\<close>

definition file_size_multipliers :: "string \<rightharpoonup> real" where
  "file_size_multipliers = map_of
    [(''< 1MB (Many small files)'', 0.25),
     (''1-10MB (Small files)'', 0.45),
     (''10-100MB (Medium files)'', 0.70),
     (''100MB-1GB (Large files)'', 0.90),
     (''> 1GB (Very large files)'', 0.95)]"

text \<open>\<^verbatim>\<open>self.network_patterns\<close>.\<close>

record network_pattern =
  max_bandwidth_gbps :: real
  latency_ms :: real
  availability :: real
  setup_time_days :: real
  monthly_cost_per_gbps :: real
  pattern_efficiency :: real

definition network_patterns :: "string \<rightharpoonup> network_pattern" where
  "network_patterns = map_of
    [(''direct_connect_dedicated'',
        \<lparr>max_bandwidth_gbps = 100, latency_ms = 1, availability = 99.95, setup_time_days = 30,
         monthly_cost_per_gbps = 300, pattern_efficiency = 0.95\<rparr>),
     (''direct_connect_hosted'',
        \<lparr>max_bandwidth_gbps = 10, latency_ms = 2, availability = 99.9, setup_time_days = 14,
         monthly_cost_per_gbps = 100, pattern_efficiency = 0.90\<rparr>),
     (''site_to_site_vpn'',
        \<lparr>max_bandwidth_gbps = 1.25, latency_ms = 150, availability = 99.95, setup_time_days = 1,
         monthly_cost_per_gbps = 45, pattern_efficiency = 0.75\<rparr>),
     (''transit_gateway'',
        \<lparr>max_bandwidth_gbps = 50, latency_ms = 1, availability = 99.95, setup_time_days = 1,
         monthly_cost_per_gbps = 50, pattern_efficiency = 0.85\<rparr>)]"

text \<open>\<^verbatim>\<open>self.network_patterns.get(network_pattern, {}).get("efficiency", 0.85)\<close>.\<close>

definition get_pattern_efficiency :: "string \<Rightarrow> real" where
  "get_pattern_efficiency pattern =
     (case network_patterns pattern of None \<Rightarrow> 0.85 | Some p \<Rightarrow> pattern_efficiency p)"

section \<open>The throughput models\<close>

subsection \<open>File-sync: \<^verbatim>\<open>calculate_enterprise_throughput\<close>\<close>

text \<open>
  The loop \<^verbatim>\<open>for i in range(num_agents)\<close> over the agent indices, with the running
  \<^verbatim>\<open>total_throughput\<close>; \<open>per_agent\<close> is the product
  \<^verbatim>\<open>base_performance * file_efficiency * network_efficiency * real_world_efficiency\<close>.
\<close>

fun multi_agent_scaling :: "real \<Rightarrow> nat list \<Rightarrow> real \<Rightarrow> real" where
  "multi_agent_scaling per_agent [] total_throughput = total_throughput"
| "multi_agent_scaling per_agent (i # rest) total_throughput =
     (let agent_efficiency = max 0.4 (1 - (real i * 0.05));
          agent_throughput = per_agent * agent_efficiency
      in multi_agent_scaling per_agent rest (total_throughput + agent_throughput))"

text \<open>
  The function returns the tuple \<^verbatim>\<open>(effective_throughput, network_efficiency,
  theoretical_throughput, real_world_efficiency)\<close>. \<^verbatim>\<open>range\<close> of a negative count is
  empty.
\<close>

definition calculate_enterprise_throughput ::
    "string \<Rightarrow> int \<Rightarrow> string \<Rightarrow> real \<Rightarrow> real \<Rightarrow> real \<Rightarrow> real \<Rightarrow> bool \<Rightarrow> real \<Rightarrow> bool \<Rightarrow> string
      \<Rightarrow> py_error + (real \<times> real \<times> real \<times> real)" where
  "calculate_enterprise_throughput instance_type num_agents file_size_category network_bw_mbps
       latency jitter packet_loss qos_enabled dedicated_bandwidth real_world_mode pattern =
     and_then (subscript instance_performance instance_type) (\<lambda>base_performance.
     and_then (subscript file_size_multipliers file_size_category) (\<lambda>file_efficiency.
       let latency_factor = max 0.4 (1 - (latency - 5) / 500);
           jitter_factor = max 0.8 (1 - jitter / 100);
           packet_loss_factor = max 0.6 (1 - packet_loss / 10);
           qos_factor = (if qos_enabled then 1.2 else 1.0);
           pattern_eff = get_pattern_efficiency pattern;
           network_efficiency =
             latency_factor * jitter_factor * packet_loss_factor * qos_factor * pattern_eff;
           real_world_efficiency =
             (if real_world_mode then
                (let datasync_overhead = 0.75;
                     storage_io_factor = 0.6;
                     tcp_efficiency = 0.8;
                     s3_api_efficiency = 0.85;
                     filesystem_overhead = 0.9;
                     cpu_memory_factor =
                       (if instance_type = ''m5.large'' then 0.7
                        else if instance_type \<in> set [''m5.xlarge'', ''m5.2xlarge''] then 0.8
                        else 0.9);
                     concurrent_workload_factor = 0.85;
                     peak_hour_factor = 0.9;
                     error_handling_overhead = 0.95
                 in datasync_overhead * storage_io_factor * tcp_efficiency *
                    s3_api_efficiency * filesystem_overhead * cpu_memory_factor *
                    concurrent_workload_factor * peak_hour_factor * error_handling_overhead)
              else 0.95);
           total_throughput =
             multi_agent_scaling
               (base_performance * file_efficiency * network_efficiency * real_world_efficiency)
               [0..<nat num_agents] 0;
           max_available_bandwidth = network_bw_mbps * (dedicated_bandwidth / 100);
           effective_throughput = min total_throughput max_available_bandwidth;
           theoretical_throughput =
             min (base_performance * file_efficiency * network_efficiency * real_of_int num_agents)
                 max_available_bandwidth
       in Inr (effective_throughput, network_efficiency, theoretical_throughput,
               real_world_efficiency)))"

subsection \<open>Database replication: \<^verbatim>\<open>calculate_dms_throughput\<close>\<close>

text \<open>\<^verbatim>\<open>str.lower\<close> on the ASCII letters (the engine names are ASCII).\<close>

definition lower_char :: "char \<Rightarrow> char" where
  "lower_char c =
     (case map_of (zip ''ABCDEFGHIJKLMNOPQRSTUVWXYZ'' ''abcdefghijklmnopqrstuvwxyz'') c of
        Some l \<Rightarrow> l
      | None \<Rightarrow> c)"

definition lower :: "string \<Rightarrow> string" where
  "lower s = map lower_char s"

definition db_factors :: "string \<rightharpoonup> real" where
  "db_factors = map_of
    [(''oracle'', 0.85), (''sql server'', 0.90), (''mysql'', 0.95), (''postgresql'', 0.95),
     (''mongodb'', 0.80), (''cassandra'', 0.75)]"

definition migration_factors :: "string \<rightharpoonup> real" where
  "migration_factors = map_of
    [(''full_load'', 1.0), (''full_load_and_cdc'', 0.8), (''cdc_only'', 0.6)]"

text \<open>\<^verbatim>\<open>np.mean\<close> of a non-empty list.\<close>

definition mean :: "real list \<Rightarrow> real" where
  "mean xs = sum_list xs / real (length xs)"

text \<open>
  The dictionary the function returns; \<open>final_throughput\<close> is its entry
  \<^verbatim>\<open>"throughput_mbps"\<close> and \<open>dms_network_efficiency\<close> its entry
  \<^verbatim>\<open>"network_efficiency"\<close>.
\<close>

record dms_result =
  final_throughput :: real
  efficiency :: real
  full_load_time_hours :: real
  cdc_lag_minutes :: real
  database_compatibility :: real
  dms_network_efficiency :: real

text \<open>
  Lines 724 to 730, "Calculate migration phases": the full-load time in hours and
  the change-capture lag in minutes. The two branches compute the same time.
\<close>

definition migration_phases :: "string \<Rightarrow> real \<Rightarrow> real \<Rightarrow> py_error + real \<times> real" where
  "migration_phases migration_type database_size_gb final =
     (if migration_type = ''full_load_and_cdc'' then
        and_then (py_div (database_size_gb * 8 * 1000) (final * 3600))
          (\<lambda>hours. Inr (hours, max 1 (database_size_gb / 1000)))
      else
        and_then (py_div (database_size_gb * 8 * 1000) (final * 3600))
          (\<lambda>hours. Inr (hours, 0)))"

definition calculate_dms_throughput ::
    "string \<Rightarrow> real \<Rightarrow> string list \<Rightarrow> string \<Rightarrow> string \<Rightarrow> real \<Rightarrow> py_error + dms_result" where
  "calculate_dms_throughput instance_type database_size_gb database_types migration_type
       pattern network_bw_mbps =
     and_then (subscript dms_performance instance_type) (\<lambda>base_throughput.
       let avg_db_factor =
             (if database_types \<noteq> [] then
                mean (map (\<lambda>db. case db_factors (lower db) of None \<Rightarrow> 0.85 | Some f \<Rightarrow> f)
                        database_types)
              else 0.85);
           migration_factor =
             (case migration_factors migration_type of None \<Rightarrow> 0.8 | Some f \<Rightarrow> f);
           pattern_eff = get_pattern_efficiency pattern;
           size_factor = min 1.0 (0.5 + (database_size_gb / 10000));
           effective_throughput =
             base_throughput * avg_db_factor * migration_factor * pattern_eff * size_factor;
           final = min effective_throughput (network_bw_mbps * 0.75)
       in and_then (migration_phases migration_type database_size_gb final)
            (\<lambda>(hours, lag).
               and_then (py_div final network_bw_mbps) (\<lambda>eff.
                 Inr \<lparr>final_throughput = final, efficiency = eff,
                      full_load_time_hours = hours, cdc_lag_minutes = lag,
                      database_compatibility = avg_db_factor,
                      dms_network_efficiency = pattern_eff\<rparr>)))"

subsection \<open>Physical shipping: \<^verbatim>\<open>calculate_snowball_timeline\<close>\<close>

text \<open>\<^verbatim>\<open>AWSPricingManager.get_snowball_pricing\<close>: a fixed table, no lookup.\<close>

record snowball_pricing =
  device_fee :: real
  data_transfer :: real
  days_included :: real

definition get_snowball_pricing :: "string \<Rightarrow> snowball_pricing" where
  "get_snowball_pricing device_type =
     (let pricing = map_of
        [(''snowcone'', \<lparr>device_fee = 60, data_transfer = 0.0, days_included = 5\<rparr>),
         (''snowball_edge_storage'', \<lparr>device_fee = 300, data_transfer = 0.0, days_included = 10\<rparr>),
         (''snowball_edge_compute'', \<lparr>device_fee = 400, data_transfer = 0.0, days_included = 10\<rparr>),
         (''snowmobile'', \<lparr>device_fee = 0.005, data_transfer = 0.0, days_included = 0\<rparr>)]
      in case pricing device_type of
           Some p \<Rightarrow> p
         | None \<Rightarrow> \<lparr>device_fee = 300, data_transfer = 0.0, days_included = 10\<rparr>)"

definition shipping_multipliers :: "string \<rightharpoonup> real" where
  "shipping_multipliers = map_of
    [(''domestic'', 1.0), (''international'', 2.0), (''remote'', 3.0)]"

record snowball_timeline =
  devices_needed :: int
  loading_time_days :: real
  shipping_days :: real
  total_timeline_days :: real
  total_cost :: real
  throughput_equivalent_mbps :: real
  device_utilization :: real

definition calculate_snowball_timeline ::
    "real \<Rightarrow> string \<Rightarrow> int \<Rightarrow> string \<Rightarrow> py_error + snowball_timeline" where
  "calculate_snowball_timeline data_size_gb device_type num_devices shipping_location =
     and_then (subscript snowball_specs device_type) (\<lambda>device_specs.
       let device_capacity_gb = capacity_tb device_specs * 1024
       in and_then (py_div data_size_gb device_capacity_gb) (\<lambda>fill.
       let needed = max num_devices \<lceil>fill\<rceil>;
           ship_days = base_shipping_days device_specs *
             (case shipping_multipliers shipping_location of None \<Rightarrow> 1.0 | Some f \<Rightarrow> f);
           transfer_rate_mbps = transfer_rate_gbps device_specs * 1000
       in and_then (py_div (data_size_gb * 8) (transfer_rate_mbps * 3600)) (\<lambda>loading_time_hours.
       let loading_days = loading_time_hours / 24;
           total_days = (ship_days * 2) + loading_days + 2;
           pricing = get_snowball_pricing device_type;
           device_cost = device_fee pricing * real_of_int needed;
           extra_days = max 0 (total_days - days_included pricing);
           extra_day_cost = extra_days * 15 * real_of_int needed;
           cost = device_cost + extra_day_cost
       in and_then (py_div (data_size_gb * 8 * 1000) (total_days * 24 * 3600)) (\<lambda>equivalent.
          and_then (py_div data_size_gb (real_of_int needed)) (\<lambda>per_device.
          and_then (py_div per_device device_capacity_gb) (\<lambda>utilization.
            Inr \<lparr>devices_needed = needed, loading_time_days = loading_days,
                 shipping_days = ship_days, total_timeline_days = total_days,
                 total_cost = cost, throughput_equivalent_mbps = equivalent,
                 device_utilization = utilization\<rparr>))))))"

section \<open>The decision engine: \<^verbatim>\<open>get_optimal_networking_architecture\<close>\<close>

text \<open>
  One entry of \<^verbatim>\<open>recommendations["service_recommendations"]\<close>. The constant
  \<^verbatim>\<open>pros\<close> and \<^verbatim>\<open>cons\<close> lists of the entry are not carried.
\<close>

record service_rec =
  suitability :: string
  throughput_mbps :: real
  estimated_days :: real

text \<open>
  The \<^verbatim>\<open>recommendations\<close> dictionary the function builds and returns. The fields
  \<^verbatim>\<open>rationale\<close>, \<^verbatim>\<open>estimated_performance\<close>, \<^verbatim>\<open>db_migration_tool\<close> and
  \<^verbatim>\<open>ai_analysis\<close> (formatted text and a copy of one entry) are not carried.
\<close>

record recommendations =
  primary_method :: string
  secondary_method :: string
  networking_option :: string
  cost_efficiency :: string
  risk_level :: string
  service_recommendations :: "string \<rightharpoonup> service_rec"

text \<open>
  The optional \<^verbatim>\<open>config\<close> dictionary, restricted to its numeric entries; the
  engine reads \<^verbatim>\<open>database_size_gb\<close> from it.
\<close>

type_synonym config = "string \<rightharpoonup> real"

text \<open>
  \<^verbatim>\<open>config and config.get('database_size_gb')\<close>: the value when the dictionary is
  given, has the key and the number is truthy (not zero).
\<close>

definition config_database_size_gb :: "config option \<Rightarrow> real option" where
  "config_database_size_gb config =
     (case config of
        None \<Rightarrow> None
      | Some c \<Rightarrow> (case c ''database_size_gb'' of
                    None \<Rightarrow> None
                  | Some v \<Rightarrow> (if v \<noteq> 0 then Some v else None)))"

text \<open>\<^verbatim>\<open>recommendations["service_recommendations"][key] = entry\<close>.\<close>

definition set_service :: "string \<Rightarrow> service_rec \<Rightarrow> recommendations \<Rightarrow> recommendations" where
  "set_service key entry recs =
     recs\<lparr>service_recommendations := (service_recommendations recs)(key \<mapsto> entry)\<rparr>"

text \<open>Lines 871 to 892: the database-replication entry.\<close>

definition dms_block :: "bool \<Rightarrow> real \<Rightarrow> real \<Rightarrow> real \<Rightarrow> config option \<Rightarrow> recommendations
    \<Rightarrow> py_error + recommendations" where
  "dms_block has_databases data_size_tb data_size_gb dx_bandwidth_mbps config recs =
     (if has_databases \<and> data_size_tb \<le> 50 then
        (let dms_throughput = min 1000 (dx_bandwidth_mbps * 0.7);
             db_size_gb = (case config_database_size_gb config of
                             Some v \<Rightarrow> v
                           | None \<Rightarrow> data_size_gb * 0.3);
             db_overhead_factor = 2.0
         in and_then (py_div (db_size_gb * 8 * 1000) (dms_throughput * 3600))
              (\<lambda>base_transfer_hours.
                 let dms_days = max 0.25 ((base_transfer_hours / 24) * db_overhead_factor)
                 in Inr (set_service ''dms''
                      \<lparr>suitability = ''High'', throughput_mbps = dms_throughput,
                       estimated_days = dms_days\<rparr> recs)))
      else Inr recs)"

text \<open>Lines 896 to 913: the physical-shipping entry.\<close>

definition snowball_block :: "real \<Rightarrow> real \<Rightarrow> recommendations \<Rightarrow> py_error + recommendations" where
  "snowball_block data_size_tb data_size_gb recs =
     (if data_size_tb > 50 then
        (let shipping_days = 6;
             loading_time_days = max 1 (data_size_tb / 8);
             processing_days = 2;
             total_snowball_days = shipping_days + loading_time_days + processing_days
         in and_then (py_div (data_size_gb * 8 * 1000) (total_snowball_days * 24 * 3600))
              (\<lambda>equivalent_mbps.
                 Inr (set_service ''snowball''
                      \<lparr>suitability = (if data_size_tb > 100 then ''High'' else ''Medium''),
                       throughput_mbps = equivalent_mbps,
                       estimated_days = total_snowball_days\<rparr> recs)))
      else Inr recs)"

text \<open>Lines 920 to 948: \<^verbatim>\<open>datasync_days\<close>, from the data size and the throughput.\<close>

definition datasync_timeline :: "real \<Rightarrow> real \<Rightarrow> py_error + real" where
  "datasync_timeline data_size_gb datasync_throughput =
     (if data_size_gb > 0 \<and> datasync_throughput > 0 then
        (let data_size_bits = data_size_gb * 8 * 1000000000;
             throughput_bits_per_second = datasync_throughput * 1000000
         in and_then (py_div data_size_bits throughput_bits_per_second)
              (\<lambda>transfer_seconds.
                 let base_days = transfer_seconds / (24 * 3600);
                     setup_overhead = 0.1;
                     retry_overhead = 0.2;
                     validation_overhead = 0.1;
                     total_overhead = 1 + setup_overhead + retry_overhead + validation_overhead;
                     datasync_days = base_days * total_overhead
                 in Inr (if data_size_gb < 100 then max 0.125 datasync_days
                         else if data_size_gb < 1000 then max 0.25 datasync_days
                         else max 0.5 datasync_days)))
      else Inr 1.0)"

text \<open>Lines 917 to 956: the file-sync entry, always written.\<close>

definition datasync_block :: "bool \<Rightarrow> real \<Rightarrow> real \<Rightarrow> recommendations \<Rightarrow> py_error + recommendations" where
  "datasync_block has_databases data_size_gb dx_bandwidth_mbps recs =
     (let datasync_throughput = min (dx_bandwidth_mbps * 0.8) 2000
      in and_then (datasync_timeline data_size_gb datasync_throughput)
           (\<lambda>datasync_days.
              Inr (set_service ''datasync''
                   \<lparr>suitability = (if \<not> has_databases then ''High'' else ''Medium''),
                    throughput_mbps = datasync_throughput,
                    estimated_days = datasync_days\<rparr> recs)))"

text \<open>
  The whole function. \<^verbatim>\<open>float(x) if x else 1000\<close> replaces a falsy data size or
  bandwidth (zero; \<^verbatim>\<open>None\<close> takes the same branch) by 1000 before anything else
  is computed.
\<close>

definition get_optimal_networking_architecture ::
    "string \<Rightarrow> string \<Rightarrow> real \<Rightarrow> real \<Rightarrow> string list \<Rightarrow> config option
      \<Rightarrow> py_error + recommendations" where
  "get_optimal_networking_architecture source_location target_region data_size_gb_arg
       dx_bandwidth_mbps_arg database_types config =
     (let data_size_gb = (if data_size_gb_arg \<noteq> 0 then data_size_gb_arg else 1000);
          dx_bandwidth_mbps = (if dx_bandwidth_mbps_arg \<noteq> 0 then dx_bandwidth_mbps_arg else 1000);
          data_size_tb = data_size_gb / 1024;
          estimated_latency =
            (case geographic_latency source_location of
               None \<Rightarrow> 50
             | Some row \<Rightarrow> (case row target_region of None \<Rightarrow> 50 | Some l \<Rightarrow> l));
          has_databases = (length database_types > 0);
          recs0 = \<lparr>primary_method = '''', secondary_method = '''', networking_option = '''',
                   cost_efficiency = '''', risk_level = '''',
                   service_recommendations = Map.empty\<rparr>;
          recs1 = recs0\<lparr>networking_option :=
                    (if dx_bandwidth_mbps \<ge> 1000 \<and> estimated_latency < 50
                       then ''Direct Connect (Primary)''
                     else if dx_bandwidth_mbps \<ge> 500
                       then ''Direct Connect with Internet Backup''
                     else ''Internet with VPN'')\<rparr>
      in and_then (dms_block has_databases data_size_tb data_size_gb dx_bandwidth_mbps config recs1)
           (\<lambda>recs2. and_then (snowball_block data_size_tb data_size_gb recs2)
           (\<lambda>recs3. and_then (datasync_block has_databases data_size_gb dx_bandwidth_mbps recs3)
           (\<lambda>recs4.
              let recs5 = recs4\<lparr>primary_method :=
                            (if has_databases \<and> data_size_tb \<le> 50 then ''DMS''
                             else if data_size_tb > 100 \<and> dx_bandwidth_mbps < 1000
                               then ''Snowball Edge''
                             else ''DataSync'')\<rparr>;
                  recs6 = recs5\<lparr>secondary_method := ''S3 Transfer Acceleration''\<rparr>;
                  recs7 =
                    (if data_size_tb > 100 \<and> dx_bandwidth_mbps < 1000
                       then recs6\<lparr>cost_efficiency := ''High (Physical transfer)'',
                                   risk_level := ''Medium''\<rparr>
                     else if dx_bandwidth_mbps \<ge> 1000
                       then recs6\<lparr>cost_efficiency := ''Medium (Network transfer)'',
                                   risk_level := ''Low''\<rparr>
                     else recs6\<lparr>cost_efficiency := ''Medium'', risk_level := ''Medium''\<rparr>)
              in Inr recs7))))"

section \<open>Observations and the specification's own wording\<close>

text \<open>What a caller reads off a result of the decision engine.\<close>

definition selected_primary :: "py_error + recommendations \<Rightarrow> string option" where
  "selected_primary res = (case res of Inl e \<Rightarrow> None | Inr r \<Rightarrow> Some (primary_method r))"

definition service_entry :: "string \<Rightarrow> py_error + recommendations \<Rightarrow> service_rec option" where
  "service_entry key res = (case res of Inl e \<Rightarrow> None | Inr r \<Rightarrow> service_recommendations r key)"

definition timeline_days :: "py_error + snowball_timeline \<Rightarrow> real option" where
  "timeline_days res = (case res of Inl e \<Rightarrow> None | Inr t \<Rightarrow> Some (total_timeline_days t))"

definition dms_field :: "(dms_result \<Rightarrow> real) \<Rightarrow> py_error + dms_result \<Rightarrow> real option" where
  "dms_field f res = (case res of Inl e \<Rightarrow> None | Inr r \<Rightarrow> Some (f r))"

text \<open>
  The selection rule of the specification (section 4.3, rule 5), read on the data
  size and the bandwidth of the configuration as the caller supplies them.
\<close>

definition claimed_primary_method :: "string list \<Rightarrow> real \<Rightarrow> real \<Rightarrow> string" where
  "claimed_primary_method database_types data_size_gb dx_bandwidth_mbps =
     (if database_types \<noteq> [] \<and> data_size_gb / 1024 \<le> 50 then ''DMS''
      else if data_size_gb / 1024 > 100 \<and> dx_bandwidth_mbps < 1000 then ''Snowball Edge''
      else ''DataSync'')"

text \<open>Rule 2 of the specification: "70% of line bandwidth".\<close>

definition claimed_dms_throughput :: "real \<Rightarrow> real" where
  "claimed_dms_throughput dx_bandwidth_mbps = 0.7 * dx_bandwidth_mbps"

text \<open>The ceiling of the file-sync entry, on the bandwidth of the configuration.\<close>

definition claimed_datasync_ceiling :: "real \<Rightarrow> real" where
  "claimed_datasync_ceiling dx_bandwidth_mbps = min (0.8 * dx_bandwidth_mbps) 2000"

text \<open>
  Section 4.2 of the specification: a lag estimate is reported "when mode includes
  change capture", which both \<^verbatim>\<open>full_load_and_cdc\<close> and \<^verbatim>\<open>cdc_only\<close> do.
\<close>

definition claimed_cdc_lag_minutes :: "string \<Rightarrow> real \<Rightarrow> real" where
  "claimed_cdc_lag_minutes migration_type database_size_gb =
     (if migration_type = ''full_load_and_cdc'' \<or> migration_type = ''cdc_only''
      then max 1 (database_size_gb / 1000) else 0)"

text \<open>
  Section 4.2 of the specification: the theoretical throughput is "the same
  computation without the per-mechanism bandwidth cap", that is the sum over the
  agents, not capped.
\<close>

definition claimed_theoretical_throughput :: "real \<Rightarrow> real \<Rightarrow> real \<Rightarrow> real \<Rightarrow> int \<Rightarrow> real" where
  "claimed_theoretical_throughput base_rate file_efficiency network_efficiency
       overhead_efficiency num_agents =
     multi_agent_scaling (base_rate * file_efficiency * network_efficiency * overhead_efficiency)
       [0..<nat num_agents] 0"

section \<open>Helper facts\<close>

lemma and_then_Inr [simp]: "and_then (Inr v) k = k v"
  by (simp add: and_then_def)

lemma and_then_Inl [simp]: "and_then (Inl e) k = Inl e"
  by (simp add: and_then_def)

lemma py_div_nonzero: "b \<noteq> 0 \<Longrightarrow> py_div a b = Inr (a / b)"
  by (simp add: py_div_def)

lemma py_div_zero: "py_div a 0 = Inl ZeroDivisionError"
  by (simp add: py_div_def)

section \<open>The decision engine\<close>

text \<open>
  Each block of \<^verbatim>\<open>get_optimal_networking_architecture\<close> returns: the divisors
  it meets are not zero once a zero bandwidth has been replaced by 1000.
\<close>

lemma dms_block_eq:
  assumes "dx \<noteq> 0"
  shows "dms_block h tb gb dx cfg recs =
     Inr (if h \<and> tb \<le> 50
          then set_service ''dms''
                 \<lparr>suitability = ''High'', throughput_mbps = min 1000 (dx * 0.7),
                  estimated_days = max 0.25
                    ((((case config_database_size_gb cfg of Some v \<Rightarrow> v | None \<Rightarrow> gb * 0.3) * 8 * 1000)
                        / (min 1000 (dx * 0.7) * 3600) / 24) * 2)\<rparr> recs
          else recs)"
proof -
  have "min 1000 (dx * 0.7) * 3600 \<noteq> 0"
    using assms by (simp add: min_def)
  then show ?thesis
    by (simp add: dms_block_def Let_def py_div_nonzero)
qed

lemma snowball_block_eq:
  "snowball_block tb gb recs =
     Inr (if tb > 50
          then set_service ''snowball''
                 \<lparr>suitability = (if tb > 100 then ''High'' else ''Medium''),
                  throughput_mbps = (gb * 8 * 1000) / ((6 + max 1 (tb / 8) + 2) * 24 * 3600),
                  estimated_days = 6 + max 1 (tb / 8) + 2\<rparr> recs
          else recs)"
proof -
  have "(6 + max 1 (tb / 8) + 2) * 24 * 3600 \<noteq> 0"
    by (simp add: max_def)
  then show ?thesis
    by (simp add: snowball_block_def Let_def py_div_nonzero)
qed

lemma datasync_timeline_bounds:
  "\<exists>d. datasync_timeline gb thr = Inr d \<and> 0.125 \<le> d
      \<and> (100 \<le> gb \<or> gb \<le> 0 \<or> thr \<le> 0 \<longrightarrow> 0.25 \<le> d)
      \<and> (1000 \<le> gb \<or> gb \<le> 0 \<or> thr \<le> 0 \<longrightarrow> 0.5 \<le> d)"
  by (auto simp: datasync_timeline_def Let_def py_div_def)

lemma datasync_block_eq:
  "datasync_timeline gb (min (dx * 0.8) 2000) = Inr d \<Longrightarrow>
   datasync_block h gb dx recs =
     Inr (set_service ''datasync''
            \<lparr>suitability = (if \<not> h then ''High'' else ''Medium''),
             throughput_mbps = min (dx * 0.8) 2000,
             estimated_days = d\<rparr> recs)"
  by (simp add: datasync_block_def Let_def)

text \<open>
  The engine returns for every argument, and the entries of its result are those
  of the three blocks on the data size and bandwidth after defaulting.
\<close>

lemma goa_fields:
  fixes gb0 dx0 :: real
  defines "gb \<equiv> (if gb0 \<noteq> 0 then gb0 else 1000)"
      and "dx \<equiv> (if dx0 \<noteq> 0 then dx0 else 1000)"
  shows "\<exists>r d. get_optimal_networking_architecture src tgt gb0 dx0 dbs cfg = Inr r
     \<and> datasync_timeline gb (min (dx * 0.8) 2000) = Inr d
     \<and> primary_method r =
          (if dbs \<noteq> [] \<and> gb / 1024 \<le> 50 then ''DMS''
           else if gb / 1024 > 100 \<and> dx < 1000 then ''Snowball Edge'' else ''DataSync'')
     \<and> secondary_method r = ''S3 Transfer Acceleration''
     \<and> service_recommendations r ''dms'' =
          (if dbs \<noteq> [] \<and> gb / 1024 \<le> 50
           then Some \<lparr>suitability = ''High'', throughput_mbps = min 1000 (dx * 0.7),
                  estimated_days = max 0.25
                    ((((case config_database_size_gb cfg of Some v \<Rightarrow> v | None \<Rightarrow> gb * 0.3) * 8 * 1000)
                        / (min 1000 (dx * 0.7) * 3600) / 24) * 2)\<rparr>
           else None)
     \<and> service_recommendations r ''snowball'' =
          (if gb / 1024 > 50
           then Some \<lparr>suitability = (if gb / 1024 > 100 then ''High'' else ''Medium''),
                  throughput_mbps = (gb * 8 * 1000) / ((6 + max 1 (gb / 1024 / 8) + 2) * 24 * 3600),
                  estimated_days = 6 + max 1 (gb / 1024 / 8) + 2\<rparr>
           else None)
     \<and> service_recommendations r ''datasync'' =
          Some \<lparr>suitability = (if dbs = [] then ''High'' else ''Medium''),
             throughput_mbps = min (dx * 0.8) 2000,
             estimated_days = d\<rparr>"
proof -
  have dx: "dx \<noteq> 0" by (simp add: dx_def)
  obtain d where d: "datasync_timeline gb (min (dx * 0.8) 2000) = Inr d"
    using datasync_timeline_bounds by blast
  show ?thesis
    unfolding get_optimal_networking_architecture_def Let_def gb_def[symmetric] dx_def[symmetric]
    using d by (simp add: dms_block_eq[OF dx] snowball_block_eq datasync_block_eq[OF d] set_service_def)
qed

text \<open>
  Claim C1, amended. For every configuration the engine returns, the secondary
  method is \<^verbatim>\<open>S3 Transfer Acceleration\<close>, and the primary method is \<^verbatim>\<open>DMS\<close> if
  and only if databases are present and the data is at most 50 TB; otherwise
  \<^verbatim>\<open>Snowball Edge\<close> if and only if the data exceeds 100 TB and the bandwidth is
  below 1000 Mbps and not zero; otherwise \<^verbatim>\<open>DataSync\<close>. A zero bandwidth is
  replaced by 1000 Mbps before the rules are read, so it never selects physical
  shipping.
\<close>

theorem primary_method_selection:
  "\<exists>r. get_optimal_networking_architecture src tgt gb dx dbs cfg = Inr r
     \<and> (primary_method r = ''DMS'' \<longleftrightarrow> dbs \<noteq> [] \<and> gb / 1024 \<le> 50)
     \<and> (primary_method r = ''Snowball Edge'' \<longleftrightarrow>
           \<not> (dbs \<noteq> [] \<and> gb / 1024 \<le> 50) \<and> gb / 1024 > 100 \<and> dx \<noteq> 0 \<and> dx < 1000)
     \<and> (primary_method r = ''DataSync'' \<longleftrightarrow>
           \<not> (dbs \<noteq> [] \<and> gb / 1024 \<le> 50) \<and> \<not> (gb / 1024 > 100 \<and> dx \<noteq> 0 \<and> dx < 1000))
     \<and> secondary_method r = ''S3 Transfer Acceleration''"
proof -
  obtain r where r: "get_optimal_networking_architecture src tgt gb dx dbs cfg = Inr r"
    and p: "primary_method r =
          (if dbs \<noteq> [] \<and> (if gb \<noteq> 0 then gb else 1000) / 1024 \<le> 50 then ''DMS''
           else if (if gb \<noteq> 0 then gb else 1000) / 1024 > 100 \<and> (if dx \<noteq> 0 then dx else 1000) < 1000
             then ''Snowball Edge'' else ''DataSync'')"
    and s: "secondary_method r = ''S3 Transfer Acceleration''"
    using goa_fields[of src tgt gb dx dbs cfg] by blast
  show ?thesis
    using r p s by (auto split: if_splits)
qed

text \<open>Scenario B of the specification: 5000 GB with one PostgreSQL database.\<close>

theorem primary_method_selection_witness:
  "selected_primary (get_optimal_networking_architecture ''New York, NY'' ''us-east-1''
      5000 1000 [''PostgreSQL''] None) = Some ''DMS''"
  using primary_method_selection[of "''New York, NY''" "''us-east-1''" 5000 1000 "[''PostgreSQL'']" None]
  by (auto simp: selected_primary_def)

text \<open>
  Claim C1 as worded fails on 200000 GB without databases and a bandwidth of 0:
  the wording gives physical shipping (0 is below 1000), the engine file-sync.
\<close>

theorem primary_method_zero_bandwidth_counterexample:
  "selected_primary (get_optimal_networking_architecture ''New York, NY'' ''us-east-1''
      200000 0 [] None) = Some ''DataSync''
   \<and> claimed_primary_method [] 200000 0 = ''Snowball Edge''"
proof -
  obtain r where "get_optimal_networking_architecture ''New York, NY'' ''us-east-1'' 200000 0 [] None = Inr r"
    and "primary_method r = ''DataSync''"
    using goa_fields[of "''New York, NY''" "''us-east-1''" 200000 0 "[]" None] by auto
  then show ?thesis
    by (simp add: selected_primary_def claimed_primary_method_def)
qed

text \<open>
  Claim C6, amended. For every configuration with databases present and at most
  50 TB of data, the engine emits a database-replication entry of suitability
  \<^verbatim>\<open>High\<close> whose throughput is 70% of the line bandwidth capped at 1000 Mbps (a
  zero bandwidth counting as 1000 Mbps), and whose duration in days is the raw
  transfer time of the database size (the configured one, else 30% of the data)
  at that throughput, doubled, and floored at 0.25 days.
\<close>

theorem dms_recommendation:
  assumes "dbs \<noteq> []" and "gb / 1024 \<le> 50"
  shows "\<exists>r e. get_optimal_networking_architecture src tgt gb dx dbs cfg = Inr r
     \<and> service_recommendations r ''dms'' = Some e
     \<and> suitability e = ''High''
     \<and> throughput_mbps e = min 1000 (0.7 * (if dx \<noteq> 0 then dx else 1000))
     \<and> estimated_days e =
         max 0.25 (2 * (((case config_database_size_gb cfg of
                            Some v \<Rightarrow> v
                          | None \<Rightarrow> 0.3 * (if gb \<noteq> 0 then gb else 1000)) * 8 * 1000
                         / (throughput_mbps e * 3600)) / 24))"
proof -
  have c: "dbs \<noteq> [] \<and> (if gb \<noteq> 0 then gb else 1000) / 1024 \<le> 50"
    using assms by simp
  obtain r where r: "get_optimal_networking_architecture src tgt gb dx dbs cfg = Inr r"
    and e: "service_recommendations r ''dms'' =
          (if dbs \<noteq> [] \<and> (if gb \<noteq> 0 then gb else 1000) / 1024 \<le> 50
           then Some \<lparr>suitability = ''High'',
                  throughput_mbps = min 1000 ((if dx \<noteq> 0 then dx else 1000) * 0.7),
                  estimated_days = max 0.25
                    ((((case config_database_size_gb cfg of Some v \<Rightarrow> v
                        | None \<Rightarrow> (if gb \<noteq> 0 then gb else 1000) * 0.3) * 8 * 1000)
                        / (min 1000 ((if dx \<noteq> 0 then dx else 1000) * 0.7) * 3600) / 24) * 2)\<rparr>
           else None)"
    using goa_fields[of src tgt gb dx dbs cfg] by blast
  show ?thesis
    using r e c by (simp add: mult.commute split: option.splits)
qed

theorem dms_recommendation_witness:
  "map_option throughput_mbps (service_entry ''dms''
      (get_optimal_networking_architecture ''New York, NY'' ''us-east-1''
         5000 1000 [''PostgreSQL''] None)) = Some 700
   \<and> map_option estimated_days (service_entry ''dms''
      (get_optimal_networking_architecture ''New York, NY'' ''us-east-1''
         5000 1000 [''PostgreSQL''] None)) = Some (25 / 63)"
  using dms_recommendation[of "[''PostgreSQL'']" 5000 "''New York, NY''" "''us-east-1''" 1000 None]
  by (auto simp: service_entry_def config_database_size_gb_def)

text \<open>
  Claim C6 as worded fails on a 10000 Mbps line: the entry has 1000 Mbps, not the
  7000 Mbps that 70% of the line would be.
\<close>

theorem dms_throughput_cap_counterexample:
  "map_option throughput_mbps (service_entry ''dms''
      (get_optimal_networking_architecture ''New York, NY'' ''us-east-1''
         5000 10000 [''PostgreSQL''] None)) = Some 1000
   \<and> claimed_dms_throughput 10000 = 7000"
proof -
  obtain r e where "get_optimal_networking_architecture ''New York, NY'' ''us-east-1''
         5000 10000 [''PostgreSQL''] None = Inr r"
    and "service_recommendations r ''dms'' = Some e" and "throughput_mbps e = 1000"
    using goa_fields[of "''New York, NY''" "''us-east-1''" 5000 10000 "[''PostgreSQL'']" None]
    by auto
  then show ?thesis
    by (simp add: service_entry_def claimed_dms_throughput_def)
qed

text \<open>
  Claim C7, amended. For every configuration with more than 50 TB of data, the
  engine emits a physical-shipping entry of suitability \<^verbatim>\<open>High\<close> above 100 TB and
  \<^verbatim>\<open>Medium\<close> otherwise, whose duration is 6 shipping days plus
  \<open>max 1 (TB / 8)\<close> loading days plus 2 processing days, and whose throughput is
  the data volume over that duration. The engine computes both itself; it takes no
  device type, device count or shipping location, and does not call
  \<^verbatim>\<open>calculate_snowball_timeline\<close>.
\<close>

theorem snowball_recommendation:
  assumes "gb / 1024 > 50"
  shows "\<exists>r e. get_optimal_networking_architecture src tgt gb dx dbs cfg = Inr r
     \<and> service_recommendations r ''snowball'' = Some e
     \<and> suitability e = (if gb / 1024 > 100 then ''High'' else ''Medium'')
     \<and> estimated_days e = 6 + max 1 (gb / 1024 / 8) + 2
     \<and> throughput_mbps e = (gb * 8 * 1000) / (estimated_days e * 24 * 3600)"
proof -
  define e where "e = \<lparr>suitability = (if gb / 1024 > 100 then ''High'' else ''Medium''),
                  throughput_mbps = (gb * 8 * 1000) / ((6 + max 1 (gb / 1024 / 8) + 2) * 24 * 3600),
                  estimated_days = 6 + max 1 (gb / 1024 / 8) + 2\<rparr>"
  have g: "(if gb \<noteq> 0 then gb else 1000) = gb"
    using assms by auto
  obtain r where r: "get_optimal_networking_architecture src tgt gb dx dbs cfg = Inr r"
    and "service_recommendations r ''snowball'' = (if gb / 1024 > 50 then Some e else None)"
    using goa_fields[of src tgt gb dx dbs cfg] unfolding g e_def by blast
  then have s: "service_recommendations r ''snowball'' = Some e"
    using assms by (simp only: if_True)
  have "suitability e = (if gb / 1024 > 100 then ''High'' else ''Medium'')"
    and "estimated_days e = 6 + max 1 (gb / 1024 / 8) + 2"
    and "throughput_mbps e = (gb * 8 * 1000) / (estimated_days e * 24 * 3600)"
    by (simp_all only: e_def service_rec.select_convs)
  with r s show ?thesis by blast
qed

theorem snowball_recommendation_witness:
  "map_option estimated_days (service_entry ''snowball''
      (get_optimal_networking_architecture ''New York, NY'' ''us-east-1''
         122880 500 [] None)) = Some 23
   \<and> map_option suitability (service_entry ''snowball''
      (get_optimal_networking_architecture ''New York, NY'' ''us-east-1''
         122880 500 [] None)) = Some ''High''"
  using snowball_recommendation[of 122880 "''New York, NY''" "''us-east-1''" 500 "[]" None]
  by (auto simp: service_entry_def)

text \<open>
  Claim C7 as worded fails on 102400 GB: the engine's entry lasts 20.5 days, the
  shipping model on the default device (one \<^verbatim>\<open>snowball_edge_storage\<close>, domestic)
  gives 14 days and a fraction.
\<close>

theorem snowball_recommendation_counterexample:
  "map_option estimated_days (service_entry ''snowball''
      (get_optimal_networking_architecture ''New York, NY'' ''us-east-1''
         102400 1000 [] None)) = Some (41 / 2)
   \<and> timeline_days (calculate_snowball_timeline 102400 ''snowball_edge_storage'' 1 ''domestic'')
       = Some (47282 / 3375)"
proof -
  obtain r e where "get_optimal_networking_architecture ''New York, NY'' ''us-east-1''
         102400 1000 [] None = Inr r"
    and "service_recommendations r ''snowball'' = Some e" and "estimated_days e = 41 / 2"
    using goa_fields[of "''New York, NY''" "''us-east-1''" 102400 1000 "[]" None]
    by auto
  then have a: "map_option estimated_days (service_entry ''snowball''
      (get_optimal_networking_architecture ''New York, NY'' ''us-east-1''
         102400 1000 [] None)) = Some (41 / 2)"
    by (simp add: service_entry_def)
  have b: "timeline_days (calculate_snowball_timeline 102400 ''snowball_edge_storage'' 1 ''domestic'')
       = Some (47282 / 3375)"
    by (simp add: timeline_days_def calculate_snowball_timeline_def subscript_def snowball_specs_def
        py_div_def shipping_multipliers_def Let_def get_snowball_pricing_def)
  from a b show ?thesis by simp
qed

text \<open>
  Claim C10, amended. For every configuration the engine emits a file-sync entry
  whose throughput is \<open>min (0.8 * bandwidth) 2000\<close> on the bandwidth after
  defaulting (zero counts as 1000 Mbps), hence at most 2000 Mbps; its duration is
  at least 0.125 days always, at least 0.25 days from 100 GB on, and at least 0.5
  days from 1000 GB on; a data size that is zero or negative has at least 0.5 days
  as well.
\<close>

theorem datasync_recommendation:
  "\<exists>r e. get_optimal_networking_architecture src tgt gb dx dbs cfg = Inr r
     \<and> service_recommendations r ''datasync'' = Some e
     \<and> throughput_mbps e = min (0.8 * (if dx \<noteq> 0 then dx else 1000)) 2000
     \<and> throughput_mbps e \<le> 2000
     \<and> 0.125 \<le> estimated_days e
     \<and> (100 \<le> gb \<or> gb \<le> 0 \<longrightarrow> 0.25 \<le> estimated_days e)
     \<and> (1000 \<le> gb \<or> gb \<le> 0 \<longrightarrow> 0.5 \<le> estimated_days e)"
proof -
  define g where "g = (if gb \<noteq> 0 then gb else 1000)"
  define b where "b = (if dx \<noteq> 0 then dx else 1000)"
  obtain r d where r: "get_optimal_networking_architecture src tgt gb dx dbs cfg = Inr r"
    and d: "datasync_timeline g (min (b * 0.8) 2000) = Inr d"
    and e: "service_recommendations r ''datasync'' =
          Some \<lparr>suitability = (if dbs = [] then ''High'' else ''Medium''),
             throughput_mbps = min (b * 0.8) 2000,
             estimated_days = d\<rparr>"
    using goa_fields[of src tgt gb dx dbs cfg] unfolding g_def b_def by blast
  obtain d' where d': "datasync_timeline g (min (b * 0.8) 2000) = Inr d'"
    and b1: "0.125 \<le> d'"
    and b2: "100 \<le> g \<or> g \<le> 0 \<or> min (b * 0.8) 2000 \<le> 0 \<longrightarrow> 0.25 \<le> d'"
    and b3: "1000 \<le> g \<or> g \<le> 0 \<or> min (b * 0.8) 2000 \<le> 0 \<longrightarrow> 0.5 \<le> d'"
    using datasync_timeline_bounds[of g "min (b * 0.8) 2000"] by blast
  have dd: "d' = d" using d d' by simp
  have g1: "100 \<le> gb \<or> gb \<le> 0 \<longrightarrow> 100 \<le> g \<or> g \<le> 0"
    by (auto simp: g_def)
  have g2: "1000 \<le> gb \<or> gb \<le> 0 \<longrightarrow> 1000 \<le> g \<or> g \<le> 0"
    by (auto simp: g_def)
  show ?thesis
    using r e b1 b2 b3 g1 g2 unfolding dd b_def[symmetric]
    by (auto simp: mult.commute)
qed

theorem datasync_recommendation_witness:
  "map_option throughput_mbps (service_entry ''datasync''
      (get_optimal_networking_architecture ''New York, NY'' ''us-east-1''
         10000 10000 [] None)) = Some 2000"
  using datasync_recommendation[of "''New York, NY''" "''us-east-1''" 10000 10000 "[]" None]
  by (auto simp: service_entry_def)

text \<open>
  Claim C10 as worded fails on 50 GB and a bandwidth of 0: the entry has 800 Mbps,
  above the ceiling \<open>min (0.8 * 0) 2000 = 0\<close>, and 0.125 days, below the 0.25 days
  worded for data under 1 TB.
\<close>

theorem datasync_recommendation_counterexample:
  "map_option throughput_mbps (service_entry ''datasync''
      (get_optimal_networking_architecture ''New York, NY'' ''us-east-1''
         50 0 [] None)) = Some 800
   \<and> map_option estimated_days (service_entry ''datasync''
      (get_optimal_networking_architecture ''New York, NY'' ''us-east-1''
         50 0 [] None)) = Some (1 / 8)
   \<and> claimed_datasync_ceiling 0 = 0"
proof -
  have t: "datasync_timeline 50 800 = Inr (1 / 8)"
    by (simp add: datasync_timeline_def py_div_def Let_def)
  obtain r e where "get_optimal_networking_architecture ''New York, NY'' ''us-east-1''
         50 0 [] None = Inr r"
    and "service_recommendations r ''datasync'' = Some e"
    and "throughput_mbps e = 800" and "estimated_days e = 1 / 8"
    using goa_fields[of "''New York, NY''" "''us-east-1''" 50 0 "[]" None] t
    by auto
  then show ?thesis
    by (simp add: service_entry_def claimed_datasync_ceiling_def)
qed

section \<open>The database-replication model\<close>

lemma dms_performance_pos: "dms_performance it = Some b \<Longrightarrow> 0 < b"
  by (auto simp: dms_performance_def split: if_splits)

lemma db_factor_pos: "0 < (case db_factors k of None \<Rightarrow> 0.85 | Some f \<Rightarrow> f)"
  by (auto simp: db_factors_def split: if_splits)

lemma migration_factor_pos: "0 < (case migration_factors k of None \<Rightarrow> 0.8 | Some f \<Rightarrow> f)"
  by (auto simp: migration_factors_def)

lemma get_pattern_efficiency_pos: "0 < get_pattern_efficiency p"
  by (auto simp: get_pattern_efficiency_def network_patterns_def)

lemma sum_list_pos: "xs \<noteq> [] \<Longrightarrow> (\<And>x. x \<in> set xs \<Longrightarrow> 0 < x) \<Longrightarrow> 0 < sum_list (xs :: real list)"
  by (induction xs) (auto simp: add_pos_nonneg sum_list_nonneg less_imp_le)

lemma mean_pos: "xs \<noteq> [] \<Longrightarrow> (\<And>x. x \<in> set xs \<Longrightarrow> 0 < x) \<Longrightarrow> 0 < mean xs"
  by (simp add: mean_def sum_list_pos)

lemma avg_db_factor_pos:
  "0 < (if dbs \<noteq> [] then
          mean (map (\<lambda>db. case db_factors (lower db) of None \<Rightarrow> 0.85 | Some f \<Rightarrow> f) dbs)
        else 0.85 :: real)"
proof (cases "dbs = []")
  case True
  then show ?thesis by simp
next
  case False
  have "0 < mean (map (\<lambda>db. case db_factors (lower db) of None \<Rightarrow> 0.85 | Some f \<Rightarrow> f) dbs)"
  proof (rule mean_pos)
    show "map (\<lambda>db. case db_factors (lower db) of None \<Rightarrow> 0.85 | Some f \<Rightarrow> f) dbs \<noteq> []"
      using False by simp
  next
    fix x assume "x \<in> set (map (\<lambda>db. case db_factors (lower db) of None \<Rightarrow> 0.85 | Some f \<Rightarrow> f) dbs)"
    then obtain db where "x = (case db_factors (lower db) of None \<Rightarrow> 0.85 | Some f \<Rightarrow> f)"
      by auto
    then show "0 < x" using db_factor_pos[of "lower db"] by simp
  qed
  with False show ?thesis by simp
qed

text \<open>
  What \<^verbatim>\<open>calculate_dms_throughput\<close> returns on a known instance type: it raises
  \<^verbatim>\<open>ZeroDivisionError\<close> exactly when the final throughput or the bandwidth is
  zero, and otherwise returns the dictionary below.
\<close>

lemma migration_phases_eq:
  "migration_phases mt sz final =
     (if final = 0 then Inl ZeroDivisionError
      else Inr ((sz * 8 * 1000) / (final * 3600),
                if mt = ''full_load_and_cdc'' then max 1 (sz / 1000) else 0))"
  by (simp add: migration_phases_def py_div_def)

lemma calculate_dms_throughput_cases:
  fixes dbs :: "string list" and mt np :: string and sz bw base :: real
  assumes "dms_performance it = Some base"
  defines "avg \<equiv> (if dbs \<noteq> [] then
          mean (map (\<lambda>db. case db_factors (lower db) of None \<Rightarrow> 0.85 | Some f \<Rightarrow> f) dbs)
        else 0.85)"
  defines "final \<equiv> min (base * avg * (case migration_factors mt of None \<Rightarrow> 0.8 | Some f \<Rightarrow> f)
                        * get_pattern_efficiency np * min 1.0 (0.5 + (sz / 10000)))
                      (bw * 0.75)"
  shows "calculate_dms_throughput it sz dbs mt np bw =
     (if final = 0 \<or> bw = 0 then Inl ZeroDivisionError
      else Inr \<lparr>final_throughput = final, efficiency = final / bw,
                full_load_time_hours = (sz * 8 * 1000) / (final * 3600),
                cdc_lag_minutes = (if mt = ''full_load_and_cdc'' then max 1 (sz / 1000) else 0),
                database_compatibility = avg,
                dms_network_efficiency = get_pattern_efficiency np\<rparr>)"
proof -
  have step: "calculate_dms_throughput it sz dbs mt np bw =
       and_then (migration_phases mt sz final)
            (\<lambda>(hours, lag).
               and_then (py_div final bw) (\<lambda>eff.
                 Inr \<lparr>final_throughput = final, efficiency = eff,
                      full_load_time_hours = hours, cdc_lag_minutes = lag,
                      database_compatibility = avg,
                      dms_network_efficiency = get_pattern_efficiency np\<rparr>))"
    unfolding calculate_dms_throughput_def subscript_def Let_def assms(1) final_def avg_def
    by (simp only: option.case and_then_Inr)
  show ?thesis
    unfolding step migration_phases_eq
    by (simp add: py_div_def)
qed

lemma calculate_dms_throughput_unknown:
  "dms_performance it = None \<Longrightarrow> calculate_dms_throughput it sz dbs mt np bw = Inl KeyError"
  by (simp add: calculate_dms_throughput_def migration_phases_def subscript_def)

lemma dms_final_pos:
  assumes "dms_performance it = Some base" and "0 < bw" and "- 5000 < sz"
  shows "0 < min (base * (if dbs \<noteq> [] then
          mean (map (\<lambda>db. case db_factors (lower db) of None \<Rightarrow> 0.85 | Some f \<Rightarrow> f) dbs)
        else 0.85) * (case migration_factors mt of None \<Rightarrow> 0.8 | Some f \<Rightarrow> f)
                        * get_pattern_efficiency np * min 1.0 (0.5 + (sz / 10000)))
                      (bw * 0.75)"
proof -
  have s: "0 < min 1.0 (0.5 + (sz / 10000))"
    using assms(3) by (simp add: min_def)
  have "0 < base * (if dbs \<noteq> [] then
          mean (map (\<lambda>db. case db_factors (lower db) of None \<Rightarrow> 0.85 | Some f \<Rightarrow> f) dbs)
        else 0.85) * (case migration_factors mt of None \<Rightarrow> 0.8 | Some f \<Rightarrow> f)
                        * get_pattern_efficiency np * min 1.0 (0.5 + (sz / 10000))"
    by (intro mult_pos_pos dms_performance_pos[OF assms(1)] avg_db_factor_pos
        migration_factor_pos get_pattern_efficiency_pos s)
  moreover have "0 < bw * 0.75" using assms(2) by simp
  ultimately show ?thesis by (simp only: min_less_iff_conj)
qed

text \<open>
  Claim C8. Whatever the instance type, database list, migration mode, network
  pattern and bandwidth: the throughput that \<^verbatim>\<open>calculate_dms_throughput\<close> returns
  is at most 0.75 times the network bandwidth.
\<close>

theorem dms_throughput_bound:
  assumes "calculate_dms_throughput it sz dbs mt np bw = Inr r"
  shows "final_throughput r \<le> 0.75 * bw"
proof (cases "dms_performance it")
  case None
  then show ?thesis
    using assms by (simp add: calculate_dms_throughput_unknown)
next
  case (Some base)
  show ?thesis
    using assms unfolding calculate_dms_throughput_cases[OF Some]
    by (auto split: if_splits)
qed

text \<open>A 100 Mbps line: the cap of 75 Mbps is reached.\<close>

theorem dms_throughput_bound_witness:
  "dms_field final_throughput (calculate_dms_throughput ''dms.c5.large'' 5000 [''Oracle'']
       ''full_load'' ''direct_connect_dedicated'' 100) = Some 75
   \<and> (75 :: real) \<le> 0.75 * 100"
proof -
  obtain r where r: "calculate_dms_throughput ''dms.c5.large'' 5000 [''Oracle'']
       ''full_load'' ''direct_connect_dedicated'' 100 = Inr r" and f: "final_throughput r = 75"
    by (simp add: calculate_dms_throughput_def migration_phases_def subscript_def dms_performance_def Let_def
        py_div_def lower_def lower_char_def db_factors_def mean_def migration_factors_def
        get_pattern_efficiency_def network_patterns_def)
  from dms_throughput_bound[OF r] r f show ?thesis
    by (simp add: dms_field_def)
qed

text \<open>
  Claim C5, amended. On a known instance type, a positive bandwidth and a
  database size above -5000 GB (exactly the inputs of positive final throughput)
  the model returns, the full-load time in hours is
  \<open>database_size_gb * 8000 / (throughput * 3600)\<close> in every migration mode, with
  no further overhead factor on the time, and the change-capture lag is
  \<open>max 1 (database_size_gb / 1000)\<close> minutes for \<^verbatim>\<open>full_load_and_cdc\<close> and 0 for
  every other mode, \<^verbatim>\<open>cdc_only\<close> included.
\<close>

theorem dms_duration_and_lag:
  assumes "dms_performance it \<noteq> None" and "0 < bw" and "- 5000 < sz"
  shows "\<exists>r. calculate_dms_throughput it sz dbs mt np bw = Inr r
     \<and> 0 < final_throughput r
     \<and> full_load_time_hours r = sz * 8000 / (final_throughput r * 3600)
     \<and> cdc_lag_minutes r = (if mt = ''full_load_and_cdc'' then max 1 (sz / 1000) else 0)"
proof -
  obtain base where b: "dms_performance it = Some base"
    using assms(1) by blast
  have p: "0 < min (base * (if dbs \<noteq> [] then
          mean (map (\<lambda>db. case db_factors (lower db) of None \<Rightarrow> 0.85 | Some f \<Rightarrow> f) dbs)
        else 0.85) * (case migration_factors mt of None \<Rightarrow> 0.8 | Some f \<Rightarrow> f)
                        * get_pattern_efficiency np * min 1.0 (0.5 + (sz / 10000)))
                      (bw * 0.75)"
    by (rule dms_final_pos[OF b assms(2) assms(3)])
  show ?thesis
    unfolding calculate_dms_throughput_cases[OF b]
    using p assms(2) by simp
qed

theorem dms_duration_and_lag_witness:
  "dms_field cdc_lag_minutes (calculate_dms_throughput ''dms.c5.large'' 5000 [''Oracle'']
       ''full_load_and_cdc'' ''direct_connect_dedicated'' 100) = Some 5
   \<and> dms_field full_load_time_hours (calculate_dms_throughput ''dms.c5.large'' 5000 [''Oracle'']
       ''full_load_and_cdc'' ''direct_connect_dedicated'' 100) = Some (5000 * 8000 / (75 * 3600))"
proof -
  have k: "dms_performance ''dms.c5.large'' \<noteq> None"
    by (simp add: dms_performance_def)
  have t: "dms_field final_throughput (calculate_dms_throughput ''dms.c5.large'' 5000 [''Oracle'']
       ''full_load_and_cdc'' ''direct_connect_dedicated'' 100) = Some 75"
    by (simp add: calculate_dms_throughput_def migration_phases_def subscript_def dms_performance_def Let_def
        py_div_def lower_def lower_char_def db_factors_def mean_def migration_factors_def
        get_pattern_efficiency_def network_patterns_def dms_field_def)
  from dms_duration_and_lag[OF k, of 100 5000 "[''Oracle'']" "''full_load_and_cdc''"
      "''direct_connect_dedicated''"] t
  show ?thesis
    by (auto simp: dms_field_def)
qed

text \<open>
  Claim C5 as worded fails on \<^verbatim>\<open>cdc_only\<close> with 5000 GB: the lag reported is 0,
  not 5 minutes.
\<close>

theorem dms_cdc_only_lag_counterexample:
  "dms_field cdc_lag_minutes (calculate_dms_throughput ''dms.c5.large'' 5000 [''Oracle'']
       ''cdc_only'' ''direct_connect_dedicated'' 1000) = Some 0
   \<and> claimed_cdc_lag_minutes ''cdc_only'' 5000 = 5"
  by (simp add: calculate_dms_throughput_def migration_phases_def subscript_def dms_performance_def Let_def
        py_div_def lower_def lower_char_def db_factors_def mean_def migration_factors_def
        get_pattern_efficiency_def network_patterns_def dms_field_def claimed_cdc_lag_minutes_def)

text \<open>
  Claim C3 does not hold of the code: with a network bandwidth of 0 the final
  throughput is 0 and the division of line 729 raises; no floor is substituted.
\<close>

theorem dms_zero_bandwidth_raises:
  "calculate_dms_throughput ''dms.c5.large'' 5000 [''Oracle'']
       ''full_load'' ''direct_connect_dedicated'' 0 = Inl ZeroDivisionError"
  by (simp add: calculate_dms_throughput_def migration_phases_def subscript_def dms_performance_def Let_def
        py_div_def lower_def lower_char_def db_factors_def mean_def migration_factors_def
        get_pattern_efficiency_def network_patterns_def)

section \<open>The file-sync model\<close>

lemma calculate_enterprise_throughput_eq:
  assumes "instance_performance it = Some base" and "file_size_multipliers fc = Some fe"
  shows "\<exists>ne rw. calculate_enterprise_throughput it n fc bw lat jit loss qos ded rwm np =
           Inr (min (multi_agent_scaling (base * fe * ne * rw) [0..<nat n] 0) (bw * (ded / 100)),
                ne,
                min (base * fe * ne * real_of_int n) (bw * (ded / 100)),
                rw)"
  unfolding calculate_enterprise_throughput_def subscript_def Let_def assms
  by (simp only: option.case and_then_Inr) blast

text \<open>
  Claim C4, amended. On a known instance type and file-size category the model
  returns; the effective throughput is the sum over the agents capped at
  \<open>network_bw_mbps * dedicated_bandwidth / 100\<close>; the theoretical throughput is
  \<open>base * file_efficiency * network_efficiency * num_agents\<close> (no overhead
  efficiency, no per-agent factor) capped at the same bandwidth. Both are at most
  that bandwidth.
\<close>

theorem enterprise_throughput_caps:
  assumes "instance_performance it = Some base" and "file_size_multipliers fc = Some fe"
  shows "\<exists>eff ne th rw.
       calculate_enterprise_throughput it n fc bw lat jit loss qos ded rwm np = Inr (eff, ne, th, rw)
     \<and> th = min (base * fe * ne * real_of_int n) (bw * (ded / 100))
     \<and> eff = min (multi_agent_scaling (base * fe * ne * rw) [0..<nat n] 0) (bw * (ded / 100))
     \<and> th \<le> bw * (ded / 100)
     \<and> eff \<le> bw * (ded / 100)"
proof -
  obtain ne rw where "calculate_enterprise_throughput it n fc bw lat jit loss qos ded rwm np =
           Inr (min (multi_agent_scaling (base * fe * ne * rw) [0..<nat n] 0) (bw * (ded / 100)),
                ne,
                min (base * fe * ne * real_of_int n) (bw * (ded / 100)),
                rw)"
    using calculate_enterprise_throughput_eq[OF assms] by blast
  then show ?thesis
    by (intro exI conjI) (assumption, simp_all only: min.cobounded2)
qed

text \<open>Three \<^verbatim>\<open>m5.large\<close> agents on a 10000 Mbps line, real-world mode.\<close>

theorem enterprise_throughput_caps_witness:
  "calculate_enterprise_throughput ''m5.large'' 3 ''> 1GB (Very large files)'' 10000 5 0 0 False 100
       True ''direct_connect_dedicated''
     = Inr (1729737991863 / 32000000000, 19 / 20, 3249 / 8, 28020573 / 200000000)"
proof -
  have a: "instance_performance ''m5.large'' = Some 150"
    by (simp add: instance_performance_def)
  have b: "file_size_multipliers ''> 1GB (Very large files)'' = Some 0.95"
    by (simp add: file_size_multipliers_def)
  have c: "calculate_enterprise_throughput ''m5.large'' 3 ''> 1GB (Very large files)'' 10000 5 0 0 False 100
       True ''direct_connect_dedicated''
     = Inr (1729737991863 / 32000000000, 19 / 20, 3249 / 8, 28020573 / 200000000)"
    by (simp add: calculate_enterprise_throughput_def subscript_def a b Let_def
        get_pattern_efficiency_def network_patterns_def upt_rec)
  from enterprise_throughput_caps[OF a b, of 3 10000 5 0 0 False 100 True "''direct_connect_dedicated''"] c
  show ?thesis by simp
qed

text \<open>
  Claim C4 as worded fails on one \<^verbatim>\<open>m5.large\<close> agent and a 10 Mbps line: the
  theoretical throughput returned is the cap, 10 Mbps, while the computation
  without the cap gives about 18.97 Mbps.
\<close>

theorem theoretical_throughput_capped_counterexample:
  "calculate_enterprise_throughput ''m5.large'' 1 ''> 1GB (Very large files)'' 10 5 0 0 False 100
       True ''direct_connect_dedicated''
     = Inr (10, 19 / 20, 10, 28020573 / 200000000)
   \<and> claimed_theoretical_throughput 150 0.95 (19 / 20) (28020573 / 200000000) 1
     = 30346280559 / 1600000000"
  by (simp add: calculate_enterprise_throughput_def subscript_def instance_performance_def
        file_size_multipliers_def Let_def get_pattern_efficiency_def network_patterns_def
        claimed_theoretical_throughput_def)

section \<open>The pricing resolver\<close>

lemma is_cache_valid_iff:
  "is_cache_valid m now key \<longleftrightarrow>
     (\<exists>v t. cache m key = Some v \<and> last_cache_update m key = Some t \<and> now - t < cache_ttl m)"
  by (auto simp: is_cache_valid_def split: option.splits)

lemma cached_lookup_returns: "\<exists>v. fst (cached_lookup m key fb cv t t' resp) = Inr v"
  by (auto simp: cached_lookup_def is_cache_valid_iff subscript_def Let_def
      split: provider_response.splits)

lemma stale_not_valid:
  "last_cache_update m key = Some t0 \<Longrightarrow> cache_ttl m \<le> now - t0 \<Longrightarrow> \<not> is_cache_valid m now key"
  by (simp add: is_cache_valid_iff)

lemma cached_lookup_stale:
  assumes "\<not> is_cache_valid m now key"
  shows "fst (cached_lookup m key fb cv now now' resp) =
     Inr (if pricing_client m then (case resp of USD_Price p \<Rightarrow> cv p | _ \<Rightarrow> fb) else fb)"
  using assms by (simp add: cached_lookup_def Let_def split: provider_response.splits)

lemma cached_lookup_live:
  assumes "pricing_client m" and "\<not> is_cache_valid m now key"
  shows "cached_lookup m key fb cv now now' (USD_Price p) =
     (Inr (cv p), update_cache (m\<lparr>provider_calls := Suc (provider_calls m)\<rparr>) now' key (cv p))"
  using assms by (simp add: cached_lookup_def Let_def)

lemma cached_lookup_hit:
  assumes "pricing_client m" and "cache m key = Some v" and "last_cache_update m key = Some t0"
    and "now - t0 < cache_ttl m"
  shows "cached_lookup m key fb cv now now' resp = (Inr v, m)"
  using assms by (simp add: cached_lookup_def is_cache_valid_iff subscript_def)

lemma cached_lookup_fallback:
  assumes "pricing_client m" and "\<not> is_cache_valid m now key"
    and "resp = No_Price \<or> resp = Provider_Raises"
  shows "cached_lookup m key fb cv now now' resp =
     (Inr fb, m\<lparr>provider_calls := Suc (provider_calls m)\<rparr>)"
  using assms by (auto simp: cached_lookup_def Let_def)

lemma is_cache_valid_counter:
  "is_cache_valid (m\<lparr>provider_calls := n\<rparr>) now key = is_cache_valid m now key"
  by (auto simp: is_cache_valid_def split: option.splits)

lemma cached_lookup_calls:
  assumes "pricing_client m" and "\<not> is_cache_valid m now key"
  shows "provider_calls (snd (cached_lookup m key fb cv now now' resp)) = Suc (provider_calls m)"
  using assms by (simp add: cached_lookup_def Let_def update_cache_def split: provider_response.splits)

text \<open>
  Claim C9, amended. For every cache key, fallback and stored form of the price
  (hence for each of the five getters, which are \<open>cached_lookup\<close> at their key):
  \<^item> an entry whose age is at least the time-to-live is not valid, and the answer
    is then the price the provider gives now, or the fallback: the old entry is
    never served;
  \<^item> a price retrieved live is stored with the clock reading of the update before
    it is returned, one provider request is counted, and a further request for
    the key within the time-to-live of that reading returns the same price and
    leaves the manager, its request counter included, unchanged;
  \<^item> a request that the provider fails, or answers without a price, returns the
    fallback and leaves the cache and its time stamps as they were, one provider
    request counted; a repeated request, the key still without a valid entry,
    goes to the provider again (two requests counted) and returns what the
    provider gives then, or the fallback.
\<close>

theorem cache_discipline:
  fixes m :: pricing_manager and key :: string and fb now now' p :: real and cv :: "real \<Rightarrow> real"
  defines "m' \<equiv> snd (cached_lookup m key fb cv now now' (USD_Price p))"
    and "mf \<equiv> m\<lparr>provider_calls := Suc (provider_calls m)\<rparr>"
  shows "(last_cache_update m key = Some stamp \<and> cache_ttl m \<le> now - stamp \<longrightarrow>
            \<not> is_cache_valid m now key
          \<and> fst (cached_lookup m key fb cv now now' resp) =
              Inr (if pricing_client m then (case resp of USD_Price q \<Rightarrow> cv q | _ \<Rightarrow> fb) else fb))
       \<and> (pricing_client m \<and> \<not> is_cache_valid m now key \<longrightarrow>
            fst (cached_lookup m key fb cv now now' (USD_Price p)) = Inr (cv p)
          \<and> cache m' key = Some (cv p)
          \<and> last_cache_update m' key = Some now'
          \<and> provider_calls m' = Suc (provider_calls m)
          \<and> (later - now' < cache_ttl m \<longrightarrow>
                cached_lookup m' key fb cv later later' again = (Inr (cv p), m')))
       \<and> (pricing_client m \<and> \<not> is_cache_valid m now key
            \<and> (failed = No_Price \<or> failed = Provider_Raises) \<longrightarrow>
            cached_lookup m key fb cv now now' failed = (Inr fb, mf)
          \<and> cache mf = cache m
          \<and> last_cache_update mf = last_cache_update m
          \<and> (\<not> is_cache_valid m later key \<longrightarrow>
                fst (cached_lookup mf key fb cv later later' again) =
                  Inr (case again of USD_Price q \<Rightarrow> cv q | _ \<Rightarrow> fb)
              \<and> provider_calls (snd (cached_lookup mf key fb cv later later' again)) =
                  Suc (Suc (provider_calls m))))"
proof (intro conjI impI)
  assume a: "last_cache_update m key = Some stamp \<and> cache_ttl m \<le> now - stamp"
  then show nv: "\<not> is_cache_valid m now key"
    by (simp add: stale_not_valid)
  show "fst (cached_lookup m key fb cv now now' resp) =
              Inr (if pricing_client m then (case resp of USD_Price q \<Rightarrow> cv q | _ \<Rightarrow> fb) else fb)"
    by (rule cached_lookup_stale[OF nv])
next
  assume b: "pricing_client m \<and> \<not> is_cache_valid m now key"
  then have live: "cached_lookup m key fb cv now now' (USD_Price p) =
     (Inr (cv p), update_cache (m\<lparr>provider_calls := Suc (provider_calls m)\<rparr>) now' key (cv p))"
    by (simp add: cached_lookup_live)
  then have m': "m' = update_cache (m\<lparr>provider_calls := Suc (provider_calls m)\<rparr>) now' key (cv p)"
    by (simp add: m'_def)
  show "fst (cached_lookup m key fb cv now now' (USD_Price p)) = Inr (cv p)"
    using live by simp
  show c: "cache m' key = Some (cv p)"
    by (simp add: m' update_cache_def)
  show l: "last_cache_update m' key = Some now'"
    by (simp add: m' update_cache_def)
  show "provider_calls m' = Suc (provider_calls m)"
    by (simp add: m' update_cache_def)
  have pc: "pricing_client m'" and ttl: "cache_ttl m' = cache_ttl m"
    using b by (simp_all add: m' update_cache_def)
  {
    assume "later - now' < cache_ttl m"
    then show "cached_lookup m' key fb cv later later' again = (Inr (cv p), m')"
      using cached_lookup_hit[OF pc c l, of later] ttl by simp
  }
next
  assume f: "pricing_client m \<and> \<not> is_cache_valid m now key
            \<and> (failed = No_Price \<or> failed = Provider_Raises)"
  then show "cached_lookup m key fb cv now now' failed = (Inr fb, mf)"
    unfolding mf_def by (simp add: cached_lookup_fallback)
  show "cache mf = cache m" and "last_cache_update mf = last_cache_update m"
    by (simp_all add: mf_def)
  have pc: "pricing_client mf"
    using f by (simp add: mf_def)
  {
    assume "\<not> is_cache_valid m later key"
    then have nv: "\<not> is_cache_valid mf later key"
      by (simp add: mf_def is_cache_valid_counter)
    show "fst (cached_lookup mf key fb cv later later' again) =
                  Inr (case again of USD_Price q \<Rightarrow> cv q | _ \<Rightarrow> fb)"
      using cached_lookup_stale[OF nv, of fb cv later' again] pc by simp
    show "provider_calls (snd (cached_lookup mf key fb cv later later' again)) =
                  Suc (Suc (provider_calls m))"
      using cached_lookup_calls[OF pc nv, of fb cv later' again] by (simp add: mf_def)
  }
qed

text \<open>
  The price of \<^verbatim>\<open>m5.large\<close> is retrieved live at time 11. Asked for again at
  time 3000, when the provider fails, the cached price is returned. Asked for at
  time 3611, the entry has the age 3600 and is not served: the fallback is
  returned. On a fresh manager, two requests that both fail make two provider
  requests.
\<close>

theorem cache_discipline_witness:
  "fst (get_ec2_pricing (init_manager ''us-east-1'' True) 10 11 (USD_Price (1 / 2)) ''m5.large'' None)
     = Inr (1 / 2)
   \<and> get_ec2_pricing
        (snd (get_ec2_pricing (init_manager ''us-east-1'' True) 10 11 (USD_Price (1 / 2))
                ''m5.large'' None))
        3000 3001 Provider_Raises ''m5.large'' None
     = (Inr (1 / 2),
        snd (get_ec2_pricing (init_manager ''us-east-1'' True) 10 11 (USD_Price (1 / 2))
                ''m5.large'' None))
   \<and> fst (get_ec2_pricing
        (snd (get_ec2_pricing (init_manager ''us-east-1'' True) 10 11 (USD_Price (1 / 2))
                ''m5.large'' None))
        3611 3612 Provider_Raises ''m5.large'' None)
     = Inr (get_fallback_ec2_pricing ''m5.large'')
   \<and> provider_calls (snd (get_ec2_pricing
        (snd (get_ec2_pricing (init_manager ''us-east-1'' True) 10 11 Provider_Raises
                ''m5.large'' None))
        20 21 No_Price ''m5.large'' None)) = 2"
proof -
  define m where "m = init_manager ''us-east-1'' True"
  define fb where "fb = get_fallback_ec2_pricing ''m5.large''"
  define M where "M = snd (cached_lookup m ''ec2_m5.large_us-east-1'' fb (\<lambda>p. p) 10 11
                             (USD_Price (1 / 2)))"
  define F where "F = m\<lparr>provider_calls := Suc (provider_calls m)\<rparr>"
  have nv: "\<not> is_cache_valid m 10 ''ec2_m5.large_us-east-1''"
    and nv_later: "\<not> is_cache_valid m 20 ''ec2_m5.large_us-east-1''"
    by (simp_all add: is_cache_valid_def init_manager_def m_def)
  have pc: "pricing_client m" and ttl: "cache_ttl m = 3600" and calls: "provider_calls m = 0"
    by (simp_all add: init_manager_def m_def)
  have at_m: "get_ec2_pricing m t t' resp ''m5.large'' None =
      cached_lookup m ''ec2_m5.large_us-east-1'' fb (\<lambda>p. p) t t' resp" for t t' resp
    by (simp add: get_ec2_pricing_def region_or_def init_manager_def m_def fb_def)
  have M_eq: "M = update_cache F 11 ''ec2_m5.large_us-east-1'' (1 / 2)"
    by (simp add: M_def F_def cached_lookup_live[OF pc nv])
  have M_facts: "region M = ''us-east-1''" "pricing_client M" "cache_ttl M = 3600"
    by (simp_all add: M_eq F_def update_cache_def m_def init_manager_def)
  have F_facts: "region F = ''us-east-1''"
    by (simp add: F_def m_def init_manager_def)
  have at_M: "get_ec2_pricing M t t' resp ''m5.large'' None =
      cached_lookup M ''ec2_m5.large_us-east-1'' fb (\<lambda>p. p) t t' resp" for t t' resp
    by (simp add: get_ec2_pricing_def region_or_def fb_def M_facts)
  have at_F: "get_ec2_pricing F t t' resp ''m5.large'' None =
      cached_lookup F ''ec2_m5.large_us-east-1'' fb (\<lambda>p. p) t t' resp" for t t' resp
    by (simp add: get_ec2_pricing_def region_or_def fb_def F_facts)
  note live = cache_discipline[where m = m and key = "''ec2_m5.large_us-east-1''" and now = 10
      and now' = 11 and fb = fb and cv = "\<lambda>p. p" and p = "1 / 2"
      and later = 3000 and later' = 3001 and again = Provider_Raises,
      THEN conjunct2, THEN conjunct1, folded M_def]
  have a: "fst (cached_lookup m ''ec2_m5.large_us-east-1'' fb (\<lambda>p. p) 10 11 (USD_Price (1 / 2)))
          = Inr (1 / 2)"
    and stamp: "last_cache_update M ''ec2_m5.large_us-east-1'' = Some 11"
    and b: "cached_lookup M ''ec2_m5.large_us-east-1'' fb (\<lambda>p. p) 3000 3001 Provider_Raises
          = (Inr (1 / 2), M)"
    using live pc nv ttl by simp_all
  note stale = cache_discipline[where m = M and key = "''ec2_m5.large_us-east-1''" and now = 3611
      and now' = 3612 and fb = fb and cv = "\<lambda>p. p" and stamp = 11 and resp = Provider_Raises,
      THEN conjunct1]
  have c: "fst (cached_lookup M ''ec2_m5.large_us-east-1'' fb (\<lambda>p. p) 3611 3612 Provider_Raises)
          = Inr fb"
    using stale stamp M_facts by simp
  note fallen = cache_discipline[where m = m and key = "''ec2_m5.large_us-east-1''" and now = 10
      and now' = 11 and fb = fb and cv = "\<lambda>p. p" and failed = Provider_Raises
      and later = 20 and later' = 21 and again = No_Price,
      THEN conjunct2, THEN conjunct2, folded F_def]
  have first: "cached_lookup m ''ec2_m5.large_us-east-1'' fb (\<lambda>p. p) 10 11 Provider_Raises
          = (Inr fb, F)"
    and d: "provider_calls (snd (cached_lookup F ''ec2_m5.large_us-east-1'' fb (\<lambda>p. p) 20 21
               No_Price)) = 2"
    using fallen pc nv nv_later calls by simp_all
  show ?thesis
    unfolding m_def[symmetric] at_m M_def[symmetric] at_M first snd_conv at_F fb_def[symmetric]
    using a b c d by simp
qed

text \<open>
  Claim C9 as worded fails for a value resolved to the fallback: the provider has
  no price at the first request, the fallback 0.096 is returned and not cached;
  the request ten seconds later goes to the provider again and returns 0.5.
\<close>

theorem fallback_not_cached_counterexample:
  "fst (get_ec2_pricing (init_manager ''us-east-1'' True) 10 11 No_Price ''m5.large'' None)
     = Inr (12 / 125)
   \<and> fst (get_ec2_pricing
        (snd (get_ec2_pricing (init_manager ''us-east-1'' True) 10 11 No_Price ''m5.large'' None))
        20 21 (USD_Price (1 / 2)) ''m5.large'' None)
     = Inr (1 / 2)
   \<and> provider_calls (snd (get_ec2_pricing
        (snd (get_ec2_pricing (init_manager ''us-east-1'' True) 10 11 No_Price ''m5.large'' None))
        20 21 (USD_Price (1 / 2)) ''m5.large'' None)) = 2"
  by (simp add: get_ec2_pricing_def cached_lookup_def init_manager_def is_cache_valid_def
      region_or_def get_fallback_ec2_pricing_def update_cache_def Let_def)

text \<open>
  The four workers of the batch do not disturb each other: their cache keys
  differ in the prefix, and what one lookup writes under its key (and counts)
  leaves the answer of a lookup under another key as it was.
\<close>

lemma is_cache_valid_other_key:
  "other \<noteq> key \<Longrightarrow>
   is_cache_valid (update_cache (m\<lparr>provider_calls := n\<rparr>) t other v) now key = is_cache_valid m now key"
  by (auto simp: is_cache_valid_def update_cache_def split: option.splits)

lemma cached_lookup_other_key:
  "other \<noteq> key \<Longrightarrow>
   fst (cached_lookup (update_cache (m\<lparr>provider_calls := n\<rparr>) t other v) key fb cv now now' resp) =
   fst (cached_lookup m key fb cv now now' resp)"
proof -
  assume d: "other \<noteq> key"
  have c: "cache (update_cache (m\<lparr>provider_calls := n\<rparr>) t other v) key = cache m key"
    and p: "pricing_client (update_cache (m\<lparr>provider_calls := n\<rparr>) t other v) = pricing_client m"
    using d by (simp_all add: update_cache_def)
  show ?thesis
    by (simp add: cached_lookup_def is_cache_valid_other_key[OF d] c p Let_def subscript_def
        split: provider_response.splits)
qed

lemma batch_keys_distinct:
  "''ec2_'' @ a \<noteq> ''s3_'' @ b" "''ec2_'' @ a \<noteq> ''transfer_'' @ c" "''ec2_'' @ a \<noteq> ''dx_'' @ d"
  "''s3_'' @ b \<noteq> ''transfer_'' @ c" "''s3_'' @ b \<noteq> ''dx_'' @ d" "''transfer_'' @ c \<noteq> ''dx_'' @ d"
  by simp_all

text \<open>The collecting loop on the four futures.\<close>

lemma cached_lookup_failed:
  assumes "\<not> pricing_client m \<or> (\<not> is_cache_valid m t key \<and> (\<forall>p. resp \<noteq> USD_Price p))"
  shows "fst (cached_lookup m key fb cv t t' resp) = Inr fb"
  using assms by (auto simp: cached_lookup_def Let_def split: provider_response.splits)

lemma collect_pricing_four:
  "collect_pricing it sc bw [(''ec2'', f1), (''s3'', f2), (''transfer'', f3), (''dx'', f4)] Map.empty =
     [''ec2'' \<mapsto> (case f1 of Inr v \<Rightarrow> v | Inl e \<Rightarrow> get_fallback_ec2_pricing it),
      ''s3'' \<mapsto> (case f2 of Inr v \<Rightarrow> v | Inl e \<Rightarrow> get_fallback_s3_pricing sc),
      ''transfer'' \<mapsto> (case f3 of Inr v \<Rightarrow> v | Inl e \<Rightarrow> 0.09),
      ''dx'' \<mapsto> (case f4 of Inr v \<Rightarrow> v | Inl e \<Rightarrow> get_fallback_dx_pricing bw)]"
  by (cases f1; cases f2; cases f3; cases f4) simp_all

lemma entry_value:
  "(case future_result env (cached_lookup m key fb cv t t' resp) of Inr v \<Rightarrow> v | Inl e \<Rightarrow> fb) = x \<Longrightarrow>
   (in_time env \<longrightarrow> fst (cached_lookup m key fb cv t t' resp) = Inr x) \<and>
   (\<not> in_time env \<or> \<not> pricing_client m \<or> (\<not> is_cache_valid m t key \<and> (\<forall>p. resp \<noteq> USD_Price p))
      \<longrightarrow> x = fb)"
  using cached_lookup_returns[of m key fb cv t t' resp]
    cached_lookup_failed[of m t key resp fb cv t']
  by (auto simp: future_result_def)

text \<open>
  Claim C2. Every call of \<^verbatim>\<open>get_comprehensive_pricing\<close> returns a dictionary
  with exactly the four keys. The entry of a key is the value its own worker
  returned when the wait for it ended in time; it is the static fallback of that
  key when the executor failed, when the wait timed out, when no client is
  configured, or when the cache has no valid entry and the provider gave no
  price. No entry depends on the lookup of another key.
\<close>

theorem comprehensive_pricing_complete:
  fixes m :: pricing_manager and it sc :: string and r :: "string option" and bw :: real
    and ec2_env s3_env transfer_env dx_env :: lookup_env and executor_ok :: bool
    and str_of :: "real \<Rightarrow> string"
  defines "pricing \<equiv> get_comprehensive_pricing str_of m executor_ok ec2_env s3_env transfer_env dx_env it sc r bw"
  shows "dom pricing = {''ec2'', ''s3'', ''transfer'', ''dx''}
    \<and> (executor_ok \<and> in_time ec2_env \<longrightarrow>
          map_option Inr (pricing ''ec2'') =
            Some (fst (get_ec2_pricing m (t_valid ec2_env) (t_update ec2_env) (response ec2_env) it r)))
    \<and> (\<not> executor_ok \<or> \<not> in_time ec2_env \<or> \<not> pricing_client m
         \<or> (\<not> is_cache_valid m (t_valid ec2_env) (''ec2_'' @ it @ ''_'' @ region_or m r)
             \<and> (\<forall>p. response ec2_env \<noteq> USD_Price p)) \<longrightarrow>
          pricing ''ec2'' = Some (get_fallback_ec2_pricing it))
    \<and> (executor_ok \<and> in_time s3_env \<longrightarrow>
          map_option Inr (pricing ''s3'') =
            Some (fst (get_s3_pricing m (t_valid s3_env) (t_update s3_env) (response s3_env) sc r)))
    \<and> (\<not> executor_ok \<or> \<not> in_time s3_env \<or> \<not> pricing_client m
         \<or> (\<not> is_cache_valid m (t_valid s3_env) (''s3_'' @ sc @ ''_'' @ region_or m r)
             \<and> (\<forall>p. response s3_env \<noteq> USD_Price p)) \<longrightarrow>
          pricing ''s3'' = Some (get_fallback_s3_pricing sc))
    \<and> (executor_ok \<and> in_time transfer_env \<longrightarrow>
          map_option Inr (pricing ''transfer'') =
            Some (fst (get_data_transfer_pricing m (t_valid transfer_env) (t_update transfer_env)
                         (response transfer_env) r)))
    \<and> (\<not> executor_ok \<or> \<not> in_time transfer_env \<or> \<not> pricing_client m
         \<or> (\<not> is_cache_valid m (t_valid transfer_env) (''transfer_'' @ region_or m r)
             \<and> (\<forall>p. response transfer_env \<noteq> USD_Price p)) \<longrightarrow>
          pricing ''transfer'' = Some 0.09)
    \<and> (executor_ok \<and> in_time dx_env \<longrightarrow>
          map_option Inr (pricing ''dx'') =
            Some (fst (get_direct_connect_pricing str_of m (t_valid dx_env) (t_update dx_env)
                         (response dx_env) bw r)))
    \<and> (\<not> executor_ok \<or> \<not> in_time dx_env \<or> \<not> pricing_client m
         \<or> (\<not> is_cache_valid m (t_valid dx_env) (''dx_'' @ str_of bw @ ''_'' @ region_or m r)
             \<and> (\<forall>p. response dx_env \<noteq> USD_Price p)) \<longrightarrow>
          pricing ''dx'' = Some (get_fallback_dx_pricing bw))"
proof (cases executor_ok)
  case False
  then have p: "pricing = [''ec2'' \<mapsto> get_fallback_ec2_pricing it,
         ''s3'' \<mapsto> get_fallback_s3_pricing sc,
         ''transfer'' \<mapsto> 0.09,
         ''dx'' \<mapsto> get_fallback_dx_pricing bw]"
    by (simp add: pricing_def get_comprehensive_pricing_def)
  show ?thesis
    unfolding p using False by auto
next
  case True
  define x1 where "x1 = (case future_result ec2_env
      (get_ec2_pricing m (t_valid ec2_env) (t_update ec2_env) (response ec2_env) it r)
      of Inr v \<Rightarrow> v | Inl e \<Rightarrow> get_fallback_ec2_pricing it)"
  define x2 where "x2 = (case future_result s3_env
      (get_s3_pricing m (t_valid s3_env) (t_update s3_env) (response s3_env) sc r)
      of Inr v \<Rightarrow> v | Inl e \<Rightarrow> get_fallback_s3_pricing sc)"
  define x3 where "x3 = (case future_result transfer_env
      (get_data_transfer_pricing m (t_valid transfer_env) (t_update transfer_env) (response transfer_env) r)
      of Inr v \<Rightarrow> v | Inl e \<Rightarrow> 0.09)"
  define x4 where "x4 = (case future_result dx_env
      (get_direct_connect_pricing str_of m (t_valid dx_env) (t_update dx_env) (response dx_env) bw r)
      of Inr v \<Rightarrow> v | Inl e \<Rightarrow> get_fallback_dx_pricing bw)"
  have p: "pricing = [''ec2'' \<mapsto> x1, ''s3'' \<mapsto> x2, ''transfer'' \<mapsto> x3, ''dx'' \<mapsto> x4]"
    unfolding pricing_def get_comprehensive_pricing_def Let_def x1_def x2_def x3_def x4_def
    using True by (simp only: if_True collect_pricing_four)
  have v1: "(in_time ec2_env \<longrightarrow>
        fst (get_ec2_pricing m (t_valid ec2_env) (t_update ec2_env) (response ec2_env) it r) = Inr x1) \<and>
      (\<not> in_time ec2_env \<or> \<not> pricing_client m
         \<or> (\<not> is_cache_valid m (t_valid ec2_env) (''ec2_'' @ it @ ''_'' @ region_or m r)
             \<and> (\<forall>p. response ec2_env \<noteq> USD_Price p)) \<longrightarrow> x1 = get_fallback_ec2_pricing it)"
    unfolding get_ec2_pricing_def
    by (rule entry_value) (simp add: x1_def get_ec2_pricing_def)
  have v2: "(in_time s3_env \<longrightarrow>
        fst (get_s3_pricing m (t_valid s3_env) (t_update s3_env) (response s3_env) sc r) = Inr x2) \<and>
      (\<not> in_time s3_env \<or> \<not> pricing_client m
         \<or> (\<not> is_cache_valid m (t_valid s3_env) (''s3_'' @ sc @ ''_'' @ region_or m r)
             \<and> (\<forall>p. response s3_env \<noteq> USD_Price p)) \<longrightarrow> x2 = get_fallback_s3_pricing sc)"
    unfolding get_s3_pricing_def
    by (rule entry_value) (simp add: x2_def get_s3_pricing_def)
  have v3: "(in_time transfer_env \<longrightarrow>
        fst (get_data_transfer_pricing m (t_valid transfer_env) (t_update transfer_env)
               (response transfer_env) r) = Inr x3) \<and>
      (\<not> in_time transfer_env \<or> \<not> pricing_client m
         \<or> (\<not> is_cache_valid m (t_valid transfer_env) (''transfer_'' @ region_or m r)
             \<and> (\<forall>p. response transfer_env \<noteq> USD_Price p)) \<longrightarrow> x3 = 0.09)"
    unfolding get_data_transfer_pricing_def
    by (rule entry_value) (simp add: x3_def get_data_transfer_pricing_def)
  have v4: "(in_time dx_env \<longrightarrow>
        fst (get_direct_connect_pricing str_of m (t_valid dx_env) (t_update dx_env)
               (response dx_env) bw r) = Inr x4) \<and>
      (\<not> in_time dx_env \<or> \<not> pricing_client m
         \<or> (\<not> is_cache_valid m (t_valid dx_env) (''dx_'' @ str_of bw @ ''_'' @ region_or m r)
             \<and> (\<forall>p. response dx_env \<noteq> USD_Price p)) \<longrightarrow> x4 = get_fallback_dx_pricing bw)"
    unfolding get_direct_connect_pricing_def
    by (rule entry_value) (simp add: x4_def get_direct_connect_pricing_def)
  have d: "dom pricing = {''ec2'', ''s3'', ''transfer'', ''dx''}"
    unfolding p by auto
  have l: "pricing ''ec2'' = Some x1" "pricing ''s3'' = Some x2"
      "pricing ''transfer'' = Some x3" "pricing ''dx'' = Some x4"
    unfolding p by simp_all
  show ?thesis
    unfolding l using d v1 v2 v3 v4 True by simp
qed

text \<open>
  The compute lookup times out, the storage lookup raises, the transfer lookup
  finds no price, and the dedicated-line lookup finds 216 a month.
\<close>

theorem comprehensive_pricing_complete_witness:
  "dom (get_comprehensive_pricing (\<lambda>b. ''1000'') (init_manager ''us-east-1'' True) True
          \<lparr>t_valid = 0, t_update = 0, response = USD_Price (1 / 10), in_time = False\<rparr>
          \<lparr>t_valid = 0, t_update = 0, response = Provider_Raises, in_time = True\<rparr>
          \<lparr>t_valid = 0, t_update = 0, response = No_Price, in_time = True\<rparr>
          \<lparr>t_valid = 0, t_update = 0, response = USD_Price 216, in_time = True\<rparr>
          ''m5.large'' ''Standard'' None 1000)
     = {''ec2'', ''s3'', ''transfer'', ''dx''}
   \<and> get_comprehensive_pricing (\<lambda>b. ''1000'') (init_manager ''us-east-1'' True) True
          \<lparr>t_valid = 0, t_update = 0, response = USD_Price (1 / 10), in_time = False\<rparr>
          \<lparr>t_valid = 0, t_update = 0, response = Provider_Raises, in_time = True\<rparr>
          \<lparr>t_valid = 0, t_update = 0, response = No_Price, in_time = True\<rparr>
          \<lparr>t_valid = 0, t_update = 0, response = USD_Price 216, in_time = True\<rparr>
          ''m5.large'' ''Standard'' None 1000 ''ec2''
     = Some (get_fallback_ec2_pricing ''m5.large'')
   \<and> get_comprehensive_pricing (\<lambda>b. ''1000'') (init_manager ''us-east-1'' True) True
          \<lparr>t_valid = 0, t_update = 0, response = USD_Price (1 / 10), in_time = False\<rparr>
          \<lparr>t_valid = 0, t_update = 0, response = Provider_Raises, in_time = True\<rparr>
          \<lparr>t_valid = 0, t_update = 0, response = No_Price, in_time = True\<rparr>
          \<lparr>t_valid = 0, t_update = 0, response = USD_Price 216, in_time = True\<rparr>
          ''m5.large'' ''Standard'' None 1000 ''dx''
     = Some (3 / 10)"
proof -
  define pricing where "pricing =
     get_comprehensive_pricing (\<lambda>b. ''1000'') (init_manager ''us-east-1'' True) True
          \<lparr>t_valid = 0, t_update = 0, response = USD_Price (1 / 10), in_time = False\<rparr>
          \<lparr>t_valid = 0, t_update = 0, response = Provider_Raises, in_time = True\<rparr>
          \<lparr>t_valid = 0, t_update = 0, response = No_Price, in_time = True\<rparr>
          \<lparr>t_valid = 0, t_update = 0, response = USD_Price 216, in_time = True\<rparr>
          ''m5.large'' ''Standard'' None 1000"
  have dx: "fst (get_direct_connect_pricing (\<lambda>b. ''1000'') (init_manager ''us-east-1'' True) 0 0
                  (USD_Price 216) 1000 None) = Inr (3 / 10)"
    by (simp add: get_direct_connect_pricing_def cached_lookup_def init_manager_def
        is_cache_valid_def Let_def)
  note all = comprehensive_pricing_complete[where str_of = "\<lambda>b. ''1000''"
      and m = "init_manager ''us-east-1'' True" and executor_ok = True
      and ?ec2_env = "\<lparr>t_valid = 0, t_update = 0, response = USD_Price (1 / 10), in_time = False\<rparr>"
      and ?s3_env = "\<lparr>t_valid = 0, t_update = 0, response = Provider_Raises, in_time = True\<rparr>"
      and transfer_env = "\<lparr>t_valid = 0, t_update = 0, response = No_Price, in_time = True\<rparr>"
      and dx_env = "\<lparr>t_valid = 0, t_update = 0, response = USD_Price 216, in_time = True\<rparr>"
      and it = "''m5.large''" and sc = "''Standard''" and r = None and bw = 1000,
      folded pricing_def]
  have a: "dom pricing = {''ec2'', ''s3'', ''transfer'', ''dx''}"
    by (rule all[THEN conjunct1])
  have b: "pricing ''ec2'' = Some (get_fallback_ec2_pricing ''m5.large'')"
    using all[THEN conjunct2, THEN conjunct2, THEN conjunct1] by simp
  have "map_option Inr (pricing ''dx'') = Some (Inr (3 / 10) :: py_error + real)"
    using all[THEN conjunct2, THEN conjunct2, THEN conjunct2, THEN conjunct2, THEN conjunct2,
        THEN conjunct2, THEN conjunct2, THEN conjunct1] dx by simp
  then have c: "pricing ''dx'' = Some (3 / 10)"
    by (cases "pricing ''dx''") simp_all
  from a b c show ?thesis
    unfolding pricing_def by (intro conjI)
qed

end
